theory Spec2Isabelle
  imports Complex_Main "HOL-Library.List_Lexorder"
begin

section \<open>Python values\<close>

text \<open>
  A Python \<open>str\<close> is a sequence of Unicode code points, and \<open>len\<close> counts code points;
  a string is therefore a list of code points (natural numbers).  Scores are Python floats
  and numbers; they are modelled by exact rationals, so rounding is not part of the model.
  Exceptions are values of \<open>py_error\<close>, on the left of a sum.
\<close>

type_synonym cp = nat
type_synonym ustring = "cp list"

datatype py_error = IndexError | KeyError

text \<open>An ASCII literal as a Python string.\<close>

definition str :: "string \<Rightarrow> ustring" where
  "str s = map of_char s"

subsection \<open>The interpreter's Unicode tables\<close>

text \<open>
  The character database of the interpreter (\<open>unicodedata\<close> and the tables behind the
  \<open>str\<close> methods) is not part of the repository: it is a parameter.  \<open>nfd\<close> is
  \<open>unicodedata.normalize('NFD', s)\<close>, \<open>is_Mn c\<close> is \<open>unicodedata.category(c) == 'Mn'\<close>,
  \<open>cp_isspace\<close> is the whitespace of \<open>str.split\<close>, \<open>str.strip\<close> and the regular
  expression \<open>\s\<close>, \<open>cp_upper\<close> is the full upper-case mapping of one code point
  (\<open>str.upper\<close> maps each code point on its own), \<open>str_lower\<close> is \<open>str.lower\<close>.
\<close>

record ucd =
  nfd :: "ustring \<Rightarrow> ustring"
  is_Mn :: "cp \<Rightarrow> bool"
  cp_isspace :: "cp \<Rightarrow> bool"
  cp_islower :: "cp \<Rightarrow> bool"
  cp_isupper :: "cp \<Rightarrow> bool"
  cp_istitle :: "cp \<Rightarrow> bool"
  cp_isalpha :: "cp \<Rightarrow> bool"
  cp_upper :: "cp \<Rightarrow> ustring"
  str_lower :: "ustring \<Rightarrow> ustring"

subsection \<open>The rapidfuzz library\<close>

text \<open>
  \<open>rapidfuzz\<close> is an external package: its two functions the code calls are parameters.
  \<open>JaroWinkler_similarity\<close> is \<open>JaroWinkler.similarity\<close> (documented range 0 to 1),
  \<open>token_set_ratio\<close> is \<open>fuzz.token_set_ratio\<close> (documented range 0 to 100).
\<close>

record rapidfuzz =
  JaroWinkler_similarity :: "ustring \<Rightarrow> ustring \<Rightarrow> rat"
  token_set_ratio :: "ustring \<Rightarrow> ustring \<Rightarrow> rat"

definition rapidfuzz_in_range :: "rapidfuzz \<Rightarrow> bool" where
  "rapidfuzz_in_range L =
     (\<forall>a b. 0 \<le> JaroWinkler_similarity L a b \<and> JaroWinkler_similarity L a b \<le> 1 \<and>
            0 \<le> token_set_ratio L a b \<and> token_set_ratio L a b \<le> 100)"

subsection \<open>String methods\<close>

text \<open>\<open>s.split()\<close>: the maximal runs of non-whitespace; \<open>cur\<close> is the run being read.\<close>

fun split_run :: "(cp \<Rightarrow> bool) \<Rightarrow> ustring \<Rightarrow> ustring \<Rightarrow> ustring list" where
  "split_run sp [] cur = (if cur = [] then [] else [cur])"
| "split_run sp (c # cs) cur =
     (if sp c then (if cur = [] then split_run sp cs [] else cur # split_run sp cs [])
      else split_run sp cs (cur @ [c]))"

definition py_split :: "ucd \<Rightarrow> ustring \<Rightarrow> ustring list" where
  "py_split U s = split_run (cp_isspace U) s []"

definition py_strip :: "ucd \<Rightarrow> ustring \<Rightarrow> ustring" where
  "py_strip U s = rev (dropWhile (cp_isspace U) (rev (dropWhile (cp_isspace U) s)))"

text \<open>\<open>sep.join(xs)\<close>.\<close>

fun py_join :: "ustring \<Rightarrow> ustring list \<Rightarrow> ustring" where
  "py_join sep [] = []"
| "py_join sep [x] = x"
| "py_join sep (x # y # ys) = x @ sep @ py_join sep (y # ys)"

text \<open>
  \<open>s.isupper()\<close>: no lower-case or title-case character, and at least one upper-case one.
  \<open>s.isalpha()\<close>: not empty and every character alphabetic.
\<close>

definition py_isupper :: "ucd \<Rightarrow> ustring \<Rightarrow> bool" where
  "py_isupper U s =
     (list_all (\<lambda>c. \<not> cp_islower U c \<and> \<not> cp_istitle U c) s \<and> list_ex (cp_isupper U) s)"

definition py_isalpha :: "ucd \<Rightarrow> ustring \<Rightarrow> bool" where
  "py_isalpha U s = (s \<noteq> [] \<and> list_all (cp_isalpha U) s)"

definition py_upper :: "ucd \<Rightarrow> ustring \<Rightarrow> ustring" where
  "py_upper U s = concat (map (cp_upper U) s)"

definition py_lower :: "ucd \<Rightarrow> ustring \<Rightarrow> ustring" where
  "py_lower U s = str_lower U s"

definition startswith :: "ustring \<Rightarrow> ustring \<Rightarrow> bool" where
  "startswith s p = (take (length p) s = p)"

text \<open>The character class \<open>[A-Za-z]\<close> of the regular expressions.\<close>

definition ascii_letter :: "cp \<Rightarrow> bool" where
  "ascii_letter c = ((65 \<le> c \<and> c \<le> 90) \<or> (97 \<le> c \<and> c \<le> 122))"

section \<open>Records of the matching pipeline (matching\_functionsV4.py)\<close>

text \<open>
  The dictionaries of the pipeline have a fixed set of string keys; each key is a field,
  \<open>None\<close> when the key is absent (so \<open>d.get(k)\<close> is the field and \<open>d.get(k, v)\<close>
  its value or \<open>v\<close>).  The professor's \<open>id\<close> may be of any hashable type.
\<close>

record 'i professor =
  p_id :: "'i option"
  p_nome_completo :: "ustring option"
  p_nome_completo_normalized :: "ustring option"
  p_nome_completo_tokens :: "ustring list option"
  p_nome_completo_original :: "ustring option"

record author =
  a_display_name :: "ustring option"
  a_orcid :: "ustring option"
  a_display_name_normalized :: "ustring option"
  a_display_name_tokens :: "ustring list option"

record 'a match_result =
  m_score :: rat
  m_nome_completo_rubrica :: "ustring option"
  m_display_name :: "ustring option"
  m_author_id :: 'a
  m_orcid :: "ustring option"

text \<open>A candidate is the tuple \<open>(score, prof, author_id, match_type)\<close>.\<close>

type_synonym ('i, 'a) candidate = "rat \<times> 'i professor \<times> 'a \<times> string"

definition cand_score :: "('i, 'a) candidate \<Rightarrow> rat" where
  "cand_score c = fst c"

definition cand_prof :: "('i, 'a) candidate \<Rightarrow> 'i professor" where
  "cand_prof c = fst (snd c)"

definition cand_author_id :: "('i, 'a) candidate \<Rightarrow> 'a" where
  "cand_author_id c = fst (snd (snd c))"

section \<open>Preprocessing (matching\_functionsV4.py)\<close>

text \<open>
  \<open>re.sub(r'\s+', ' ', name)\<close>: every maximal run of whitespace becomes one space;
  \<open>in_run\<close> says that the previous character was whitespace.
\<close>

fun collapse_ws :: "(cp \<Rightarrow> bool) \<Rightarrow> bool \<Rightarrow> ustring \<Rightarrow> ustring" where
  "collapse_ws sp in_run [] = []"
| "collapse_ws sp in_run (c # cs) =
     (if sp c then (if in_run then collapse_ws sp True cs else 32 # collapse_ws sp True cs)
      else c # collapse_ws sp False cs)"

text \<open>
  The three character classes of \<open>normalize_name\<close>: the dashes U+2010, U+2011, U+2013 and
  U+2014; the apostrophe, the grave accent and the acute accent U+00B4; comma and semicolon.
\<close>

definition sub_dashes :: "cp \<Rightarrow> cp" where
  "sub_dashes c = (if c = 8208 \<or> c = 8209 \<or> c = 8211 \<or> c = 8212 then 45 else c)"

definition sub_apostrophes :: "cp \<Rightarrow> cp" where
  "sub_apostrophes c = (if c = 39 \<or> c = 96 \<or> c = 180 then 39 else c)"

definition sub_commas :: "cp \<Rightarrow> cp" where
  "sub_commas c = (if c = 44 \<or> c = 59 then 32 else c)"

text \<open>\<open>normalize_name\<close>, lines 18 to 38.\<close>

definition normalize_name :: "ucd \<Rightarrow> ustring \<Rightarrow> ustring" where
  "normalize_name U name =
     (if name = [] then []
      else
        let name = nfd U name;
            name = filter (\<lambda>char. \<not> is_Mn U char) name;
            name = map sub_dashes name;
            name = map sub_apostrophes name;
            name = map sub_commas name
        in collapse_ws (cp_isspace U) False (py_strip U name))"

text \<open>\<open>preprocess_professor_data\<close> (lines 40 to 63) and \<open>preprocess_authors_data\<close>
  (lines 65 to 85): the loop body on one record, then the loop.\<close>

definition preprocess_professor :: "ucd \<Rightarrow> 'i professor \<Rightarrow> 'i professor" where
  "preprocess_professor U prof =
     (let nome_completo = (case p_nome_completo prof of None \<Rightarrow> [] | Some n \<Rightarrow> n) in
      if nome_completo \<noteq> [] then
        let normalized = normalize_name U nome_completo in
        prof \<lparr> p_nome_completo_normalized := Some normalized,
               p_nome_completo_tokens := Some (py_split U normalized),
               p_nome_completo_original := Some nome_completo \<rparr>
      else
        prof \<lparr> p_nome_completo_normalized := Some [],
               p_nome_completo_tokens := Some [],
               p_nome_completo_original := Some [] \<rparr>)"

definition preprocess_professor_data :: "ucd \<Rightarrow> 'i professor list \<Rightarrow> 'i professor list" where
  "preprocess_professor_data U professors = map (preprocess_professor U) professors"

definition preprocess_author :: "ucd \<Rightarrow> author \<Rightarrow> author" where
  "preprocess_author U author_data =
     (let display_name = (case a_display_name author_data of None \<Rightarrow> [] | Some n \<Rightarrow> n) in
      if display_name \<noteq> [] then
        let normalized = normalize_name U display_name in
        author_data \<lparr> a_display_name_normalized := Some normalized,
                      a_display_name_tokens := Some (py_split U normalized) \<rparr>
      else
        author_data \<lparr> a_display_name_normalized := Some [],
                      a_display_name_tokens := Some [] \<rparr>)"

definition preprocess_authors_data :: "ucd \<Rightarrow> ('a \<times> author) list \<Rightarrow> ('a \<times> author) list" where
  "preprocess_authors_data U authors_dict =
     map (\<lambda>(author_id, author_data). (author_id, preprocess_author U author_data)) authors_dict"

section \<open>Parsing (matching\_functionsV4.py)\<close>

text \<open>\<open>parse_professor_name\<close>, lines 110 to 152: the loop sorts the tokens into two lists.\<close>

definition parse_professor_name :: "ucd \<Rightarrow> ustring list \<Rightarrow> ustring \<Rightarrow> ustring \<times> ustring" where
  "parse_professor_name U prof_tokens original_name =
     (let original_tokens = (if original_name \<noteq> [] then py_split U original_name else prof_tokens) in
      if length original_tokens < 2 then ([], [])
      else
        let cognome_tokens = filter (py_isupper U) original_tokens;
            nome_tokens = filter (\<lambda>token. \<not> py_isupper U token) original_tokens;
            prof_nome = py_join [32] nome_tokens;
            prof_cognome = py_join [32] cognome_tokens
        in if prof_cognome = [] then (py_join [32] (drop 1 original_tokens), original_tokens ! 0)
           else (prof_nome, prof_cognome))"

text \<open>
  The pattern \<open>^[A-Za-z]\.?([A-Za-z]\.?)*$\<close>: letters, each with an optional period after it.
  \<open>$\<close> also matches before a line feed that ends the string.
\<close>

fun initial_groups :: "ustring \<Rightarrow> bool" where
  "initial_groups [] = True"
| "initial_groups [c] = ascii_letter c"
| "initial_groups (c # d # cs) =
     (ascii_letter c \<and> (if d = 46 then initial_groups cs else initial_groups (d # cs)))"

definition match_initial_pattern :: "ustring \<Rightarrow> bool" where
  "match_initial_pattern name =
     (name \<noteq> [] \<and>
      (initial_groups name \<or>
       (last name = 10 \<and> butlast name \<noteq> [] \<and> initial_groups (butlast name))))"

definition is_initial :: "ucd \<Rightarrow> ustring \<Rightarrow> bool" where
  "is_initial U name =
     (let name = py_strip U name in
      match_initial_pattern name \<and> length (filter (\<lambda>c. c \<noteq> 46) name) \<le> 3)"

text \<open>\<open>re.sub(r'[^A-Za-z]', '', name)[0] if name else ''\<close>: the index raises on no letter.\<close>

definition extract_initial :: "ustring \<Rightarrow> py_error + ustring" where
  "extract_initial name =
     (if name \<noteq> [] then
        (case filter ascii_letter name of [] \<Rightarrow> Inl IndexError | c # _ \<Rightarrow> Inr [c])
      else Inr [])"

text \<open>The second component of the result of \<open>parse_author_name\<close>: a string or the token list.\<close>

datatype cognome = CognomeStr ustring | CognomeList "ustring list"

text \<open>\<open>parse_author_name\<close>, lines 154 to 181.\<close>

definition parse_author_name :: "ucd \<Rightarrow> ustring list \<Rightarrow> py_error + (ustring \<times> cognome)" where
  "parse_author_name U author_tokens =
     (if author_tokens = [] then Inr ([], CognomeStr [])
      else if length author_tokens = 2 \<and> is_initial U (author_tokens ! 0) then
        (case extract_initial (author_tokens ! 0) of
           Inl e \<Rightarrow> Inl e
         | Inr initial \<Rightarrow> Inr (initial, CognomeStr (author_tokens ! 1)))
      else if length author_tokens = 2 then
        Inr (author_tokens ! 0, CognomeStr (author_tokens ! 1))
      else if length author_tokens > 6 then Inr ([], CognomeStr [])
      else Inr ([], CognomeList author_tokens))"

text \<open>\<open>check_common_abbreviations\<close>, lines 202 to 220.\<close>

definition abbreviations :: "(ustring \<times> ustring list) list" where
  "abbreviations =
     [(str ''giuseppe'', [str ''peppe'', str ''beppe'', str ''pino'']),
      (str ''giovanni'', [str ''gianni'', str ''nino'']),
      (str ''francesco'', [str ''franco'', str ''checco'']),
      (str ''alessandro'', [str ''sandro'', str ''alex'']),
      (str ''antonio'', [str ''toni'', str ''tonino'']),
      (str ''maria'', [str ''mary''])]"

definition check_common_abbreviations :: "ucd \<Rightarrow> ustring \<Rightarrow> ustring \<Rightarrow> bool" where
  "check_common_abbreviations U full_name abbrev_name =
     (let full_lower = (if full_name \<noteq> [] then py_lower U full_name else []);
          abbrev_lower = (if abbrev_name \<noteq> [] then py_lower U abbrev_name else [])
      in case map_of abbreviations full_lower of
           Some abbrevs \<Rightarrow> abbrev_lower \<in> set abbrevs
         | None \<Rightarrow> False)"

section \<open>Scoring (matching\_functionsV4.py)\<close>

text \<open>
  One pass of the body of the two nested loops of \<open>calculate_token_set_score_optimized\<close>,
  then the inner loop over \<open>author_tokens\<close> and the outer loop over \<open>prof_tokens\<close>.
\<close>

definition initial_bonus_step ::
  "ucd \<Rightarrow> ustring \<Rightarrow> ustring \<Rightarrow> rat \<Rightarrow> py_error + rat" where
  "initial_bonus_step U prof_token author_token initial_bonus =
     (if is_initial U author_token then
        (case extract_initial author_token of
           Inl e \<Rightarrow> Inl e
         | Inr i \<Rightarrow>
             let initial = py_upper U i in
             if startswith (py_upper U prof_token) initial then Inr (initial_bonus + 10)
             else Inr initial_bonus)
      else if is_initial U prof_token then
        (case extract_initial prof_token of
           Inl e \<Rightarrow> Inl e
         | Inr i \<Rightarrow>
             let initial = py_upper U i in
             if startswith (py_upper U author_token) initial then Inr (initial_bonus + 10)
             else Inr initial_bonus)
      else Inr initial_bonus)"

fun initial_bonus_inner ::
  "ucd \<Rightarrow> ustring \<Rightarrow> ustring list \<Rightarrow> rat \<Rightarrow> py_error + rat" where
  "initial_bonus_inner U prof_token [] initial_bonus = Inr initial_bonus"
| "initial_bonus_inner U prof_token (author_token # author_tokens) initial_bonus =
     (case initial_bonus_step U prof_token author_token initial_bonus of
        Inl e \<Rightarrow> Inl e
      | Inr b \<Rightarrow> initial_bonus_inner U prof_token author_tokens b)"

fun initial_bonus_outer ::
  "ucd \<Rightarrow> ustring list \<Rightarrow> ustring list \<Rightarrow> rat \<Rightarrow> py_error + rat" where
  "initial_bonus_outer U [] author_tokens initial_bonus = Inr initial_bonus"
| "initial_bonus_outer U (prof_token # prof_tokens) author_tokens initial_bonus =
     (case initial_bonus_inner U prof_token author_tokens initial_bonus of
        Inl e \<Rightarrow> Inl e
      | Inr b \<Rightarrow> initial_bonus_outer U prof_tokens author_tokens b)"

text \<open>\<open>calculate_token_set_score_optimized\<close>, lines 281 to 308.\<close>

definition calculate_token_set_score_optimized ::
  "ucd \<Rightarrow> rapidfuzz \<Rightarrow> ustring list \<Rightarrow> ustring list \<Rightarrow> py_error + rat" where
  "calculate_token_set_score_optimized U L prof_tokens author_tokens =
     (let prof_tokens_clean = map (py_upper U) (filter (py_isalpha U) prof_tokens);
          author_tokens_clean = map (py_upper U) (filter (py_isalpha U) author_tokens);
          token_set_score =
            token_set_ratio L (py_join [32] prof_tokens_clean) (py_join [32] author_tokens_clean)
      in case initial_bonus_outer U prof_tokens author_tokens 0 of
           Inl e \<Rightarrow> Inl e
         | Inr initial_bonus \<Rightarrow> Inr (min 100 (token_set_score + initial_bonus)))"

text \<open>\<open>calculate_first_name_score_optimized\<close>, lines 310 to 342.\<close>

definition calculate_first_name_score_optimized ::
  "ucd \<Rightarrow> rapidfuzz \<Rightarrow> ustring \<Rightarrow> ustring \<Rightarrow> py_error + rat" where
  "calculate_first_name_score_optimized U L prof_nome0 author_first0 =
     (let prof_nome = (if prof_nome0 \<noteq> [] then py_strip U prof_nome0 else []);
          author_first = (if author_first0 \<noteq> [] then py_strip U author_first0 else [])
      in
      if is_initial U author_first then
        (case extract_initial author_first of
           Inl e \<Rightarrow> Inl e
         | Inr initial \<Rightarrow>
             if prof_nome \<noteq> [] \<and> py_upper U [prof_nome ! 0] = py_upper U initial
             then Inr 95 else Inr 10)
      else if is_initial U prof_nome then
        (case extract_initial prof_nome of
           Inl e \<Rightarrow> Inl e
         | Inr initial \<Rightarrow>
             if author_first \<noteq> [] \<and> py_upper U [author_first ! 0] = py_upper U initial
             then Inr 95 else Inr 10)
      else
        let prof_nome_norm = py_upper U prof_nome;
            author_first_norm = py_upper U author_first;
            jaro_score = JaroWinkler_similarity L prof_nome_norm author_first_norm * 100
        in if check_common_abbreviations U prof_nome author_first
           then Inr (min 100 (jaro_score + 10)) else Inr jaro_score)"

text \<open>
  The end of \<open>calculate_name_score_optimized\<close>: the weighted sum, the bonus and the penalty.
\<close>

definition combine_scores :: "rat \<Rightarrow> rat \<Rightarrow> rat" where
  "combine_scores cognome_score nome_score =
     (let final_score = cognome_score * 0.7 + nome_score * 0.3;
          final_score = (if cognome_score > 95 \<and> nome_score > 95
                         then min 100 (final_score + 5) else final_score);
          final_score = (if cognome_score < 60 then final_score * 0.5 else final_score)
      in final_score)"

text \<open>\<open>calculate_name_score_optimized\<close>, lines 224 to 279.\<close>

definition calculate_name_score_optimized ::
  "ucd \<Rightarrow> rapidfuzz \<Rightarrow> 'i professor \<Rightarrow> author \<Rightarrow> py_error + rat" where
  "calculate_name_score_optimized U L prof_data author_data =
     (let prof_clean = (case p_nome_completo_normalized prof_data of None \<Rightarrow> [] | Some n \<Rightarrow> n);
          author_clean = (case a_display_name_normalized author_data of None \<Rightarrow> [] | Some n \<Rightarrow> n)
      in
      if prof_clean = [] \<or> author_clean = [] then Inr 0
      else
        let prof_tokens = (case p_nome_completo_tokens prof_data of None \<Rightarrow> [] | Some t \<Rightarrow> t);
            author_tokens = (case a_display_name_tokens author_data of None \<Rightarrow> [] | Some t \<Rightarrow> t)
        in
        if length prof_tokens < 2 \<or> length author_tokens < 2 then
          Inr (JaroWinkler_similarity L prof_clean author_clean * 100)
        else
          let original_name =
                (case p_nome_completo_original prof_data of None \<Rightarrow> prof_clean | Some n \<Rightarrow> n);
              (prof_nome, prof_cognome) = parse_professor_name U prof_tokens original_name
          in
          case parse_author_name U author_tokens of
            Inl e \<Rightarrow> Inl e
          | Inr (author_nome, CognomeList author_cognome) \<Rightarrow>
              calculate_token_set_score_optimized U L prof_tokens author_tokens
          | Inr (author_nome, CognomeStr author_cognome) \<Rightarrow>
              let prof_cognome_norm = (if prof_cognome \<noteq> [] then py_upper U prof_cognome else []);
                  author_cognome_norm =
                    (if author_cognome \<noteq> [] then py_upper U author_cognome else []);
                  cognome_score =
                    JaroWinkler_similarity L prof_cognome_norm author_cognome_norm * 100
              in
              case calculate_first_name_score_optimized U L prof_nome author_nome of
                Inl e \<Rightarrow> Inl e
              | Inr nome_score \<Rightarrow> Inr (combine_scores cognome_score nome_score))"

text \<open>
  \<open>debug_name_score\<close>: the score of two raw names, through the same preprocessing as
  \<open>preprocess_professor_data\<close> and \<open>preprocess_authors_data\<close>.
\<close>

definition debug_name_score :: "ucd \<Rightarrow> rapidfuzz \<Rightarrow> ustring \<Rightarrow> ustring \<Rightarrow> py_error + rat" where
  "debug_name_score U L prof_name author_name =
     (let prof_data =
            \<lparr> p_id = (None :: unit option),
              p_nome_completo = Some prof_name,
              p_nome_completo_normalized = Some (normalize_name U prof_name),
              p_nome_completo_tokens = Some (py_split U (normalize_name U prof_name)),
              p_nome_completo_original = Some prof_name \<rparr>;
          author_data =
            \<lparr> a_display_name = Some author_name,
              a_orcid = None,
              a_display_name_normalized = Some (normalize_name U author_name),
              a_display_name_tokens = Some (py_split U (normalize_name U author_name)) \<rparr>
      in calculate_name_score_optimized U L prof_data author_data)"

section \<open>Candidates (matching\_functionsV4.py)\<close>

text \<open>\<open>all_matches.sort(reverse=True, key=lambda x: x[0])\<close>: stable, by falling score.\<close>

definition sort_matches :: "('i, 'a) candidate list \<Rightarrow> ('i, 'a) candidate list" where
  "sort_matches all_matches = sort_key (\<lambda>x. - cand_score x) all_matches"

text \<open>\<open>find_best_matches_optimized\<close>, lines 346 to 385: the inner loop over
  \<open>authors_dict.items()\<close>, the outer loop over \<open>professors\<close>, then the sort.\<close>

fun find_matches_authors ::
  "ucd \<Rightarrow> rapidfuzz \<Rightarrow> 'i professor \<Rightarrow> ('a \<times> author) list \<Rightarrow> rat \<Rightarrow> ('i, 'a) candidate list
     \<Rightarrow> py_error + ('i, 'a) candidate list" where
  "find_matches_authors U L prof [] score_threshold all_matches = Inr all_matches"
| "find_matches_authors U L prof ((author_id, author_data) # items) score_threshold all_matches =
     (case calculate_name_score_optimized U L prof author_data of
        Inl e \<Rightarrow> Inl e
      | Inr score \<Rightarrow>
          find_matches_authors U L prof items score_threshold
            (if score > score_threshold
             then all_matches @ [(score, prof, author_id, ''display_name'')]
             else all_matches))"

fun find_matches_professors ::
  "ucd \<Rightarrow> rapidfuzz \<Rightarrow> 'i professor list \<Rightarrow> ('a \<times> author) list \<Rightarrow> rat \<Rightarrow> ('i, 'a) candidate list
     \<Rightarrow> py_error + ('i, 'a) candidate list" where
  "find_matches_professors U L [] authors_dict score_threshold all_matches = Inr all_matches"
| "find_matches_professors U L (prof # professors) authors_dict score_threshold all_matches =
     (case find_matches_authors U L prof authors_dict score_threshold all_matches of
        Inl e \<Rightarrow> Inl e
      | Inr ms \<Rightarrow> find_matches_professors U L professors authors_dict score_threshold ms)"

definition find_best_matches_optimized ::
  "ucd \<Rightarrow> rapidfuzz \<Rightarrow> 'i professor list \<Rightarrow> ('a \<times> author) list \<Rightarrow> rat
     \<Rightarrow> py_error + ('i, 'a) candidate list" where
  "find_best_matches_optimized U L professors authors_dict score_threshold =
     (case find_matches_professors U L professors authors_dict score_threshold [] of
        Inl e \<Rightarrow> Inl e
      | Inr all_matches \<Rightarrow> Inr (sort_matches all_matches))"

section \<open>resolve\_matches\<close>

text \<open>\<open>resolve_matches\<close>, lines 387 to 430: the three variables of the loop, the dictionary
  \<open>match_result\<close>, the loop.\<close>

record ('i, 'a) resolve_state =
  final_matches :: "'a match_result list"
  used_professors :: "'i option set"
  used_authors :: "'a set"

definition make_match_result ::
  "rat \<Rightarrow> 'i professor \<Rightarrow> 'a \<Rightarrow> author \<Rightarrow> 'a match_result" where
  "make_match_result score prof author_id author_data =
     \<lparr> m_score = score,
       m_nome_completo_rubrica = p_nome_completo prof,
       m_display_name = a_display_name author_data,
       m_author_id = author_id,
       m_orcid = a_orcid author_data \<rparr>"

text \<open>
  The \<open>for\<close> loop of \<open>resolve_matches\<close>: \<open>break\<close> at the first score below the
  threshold, \<open>KeyError\<close> when \<open>authors_dict[author_id]\<close> has no such key.
\<close>

fun resolve_loop ::
  "('i, 'a) candidate list \<Rightarrow> ('a \<rightharpoonup> author) \<Rightarrow> rat \<Rightarrow> ('i, 'a) resolve_state
     \<Rightarrow> py_error + ('i, 'a) resolve_state" where
  "resolve_loop [] authors_dict threshold_resolve st = Inr st"
| "resolve_loop ((score, prof, author_id, match_type) # rest) authors_dict threshold_resolve st =
     (if score < threshold_resolve then Inr st
      else
        let prof_id = p_id prof in
        if prof_id \<notin> used_professors st \<and> author_id \<notin> used_authors st then
          (case authors_dict author_id of
             None \<Rightarrow> Inl KeyError
           | Some author_data \<Rightarrow>
               resolve_loop rest authors_dict threshold_resolve
                 \<lparr> final_matches =
                     final_matches st @ [make_match_result score prof author_id author_data],
                   used_professors = insert prof_id (used_professors st),
                   used_authors = insert author_id (used_authors st) \<rparr>)
        else resolve_loop rest authors_dict threshold_resolve st)"

definition resolve_matches ::
  "('i, 'a) candidate list \<Rightarrow> ('a \<rightharpoonup> author) \<Rightarrow> rat \<Rightarrow> py_error + 'a match_result list" where
  "resolve_matches all_matches authors_dict threshold_resolve =
     (case resolve_loop all_matches authors_dict threshold_resolve
             \<lparr> final_matches = [], used_professors = {}, used_authors = {} \<rparr> of
        Inl e \<Rightarrow> Inl e
      | Inr st \<Rightarrow> Inr (final_matches st))"

text \<open>
  The emitted dictionaries do not carry the professor's identifier.  To speak about it,
  \<open>committed_from\<close> lists the candidates for which the loop runs \<open>final_matches.append\<close>:
  the same control flow, without the lookup in \<open>authors_dict\<close>.
\<close>

fun committed_from ::
  "('i, 'a) candidate list \<Rightarrow> rat \<Rightarrow> 'i option set \<Rightarrow> 'a set \<Rightarrow> ('i, 'a) candidate list" where
  "committed_from [] thr up ua = []"
| "committed_from (c # rest) thr up ua =
     (if cand_score c < thr then []
      else if p_id (cand_prof c) \<notin> up \<and> cand_author_id c \<notin> ua
      then c # committed_from rest thr (insert (p_id (cand_prof c)) up) (insert (cand_author_id c) ua)
      else committed_from rest thr up ua)"

definition committed :: "('i, 'a) candidate list \<Rightarrow> rat \<Rightarrow> ('i, 'a) candidate list" where
  "committed all_matches thr = committed_from all_matches thr {} {}"

definition emitted_for :: "('a \<rightharpoonup> author) \<Rightarrow> 'a match_result \<Rightarrow> ('i, 'a) candidate \<Rightarrow> bool" where
  "emitted_for authors_dict m c =
     (case authors_dict (cand_author_id c) of
        None \<Rightarrow> False
      | Some author_data \<Rightarrow>
          m = make_match_result (cand_score c) (cand_prof c) (cand_author_id c) author_data)"

section \<open>A sample of the Unicode tables\<close>

text \<open>
  For closed examples the Unicode parameter is instantiated by \<open>ucd_sample\<close>: the tables of
  Unicode on the ASCII range and on three further code points, U+0901 (category Mn, combining
  class 0), U+1D165 (category Mc, combining class 216) and U+1D16D (category Mc, combining class
  226).  No code point of the sample has a decomposition, so NFD is the canonical ordering:
  within a run of characters of non-zero combining class, a stable sort by combining class.
  The examples use strings over these code points only.
\<close>

definition sample_ccc :: "cp \<Rightarrow> nat" where
  "sample_ccc c = (if c = 119141 then 216 else if c = 119149 then 226 else 0)"

fun reorder_mark :: "(cp \<Rightarrow> nat) \<Rightarrow> cp \<Rightarrow> ustring \<Rightarrow> ustring" where
  "reorder_mark ccc c [] = [c]"
| "reorder_mark ccc c (d # ds) =
     (if ccc d \<noteq> 0 \<and> ccc d < ccc c then d # reorder_mark ccc c ds else c # d # ds)"

fun canonical_order :: "(cp \<Rightarrow> nat) \<Rightarrow> ustring \<Rightarrow> ustring" where
  "canonical_order ccc [] = []"
| "canonical_order ccc (c # cs) = reorder_mark ccc c (canonical_order ccc cs)"

definition ascii_upper :: "cp \<Rightarrow> cp" where
  "ascii_upper c = (if 97 \<le> c \<and> c \<le> 122 then c - 32 else c)"

definition ascii_lower :: "cp \<Rightarrow> cp" where
  "ascii_lower c = (if 65 \<le> c \<and> c \<le> 90 then c + 32 else c)"

definition ucd_sample :: ucd where
  "ucd_sample =
     \<lparr> nfd = canonical_order sample_ccc,
       is_Mn = (\<lambda>c. c = 2305),
       cp_isspace = (\<lambda>c. (9 \<le> c \<and> c \<le> 13) \<or> (28 \<le> c \<and> c \<le> 32)),
       cp_islower = (\<lambda>c. 97 \<le> c \<and> c \<le> 122),
       cp_isupper = (\<lambda>c. 65 \<le> c \<and> c \<le> 90),
       cp_istitle = (\<lambda>c. False),
       cp_isalpha = ascii_letter,
       cp_upper = (\<lambda>c. [ascii_upper c]),
       str_lower = map ascii_lower \<rparr>"

section \<open>A reference model of the two rapidfuzz functions\<close>

text \<open>
  For closed examples the library parameter is instantiated by \<open>rapidfuzz_ref\<close>, written from
  the published definitions: the Jaro similarity with the matching window
  \<open>max(len1, len2) div 2 - 1\<close>, Winkler's prefix bonus (weight 0.1, at most four characters,
  applied above 0.7), and the token set ratio built on the normalised indel similarity
  (insertions and deletions, from the longest common subsequence).
\<close>

text \<open>
  Matching characters: for each character of \<open>p\<close> (at index \<open>i\<close>) the first unflagged equal
  character of \<open>t\<close> within the window is flagged.  The result holds the flags of both strings.
\<close>

fun jaro_flags ::
  "nat \<Rightarrow> ustring \<Rightarrow> ustring \<Rightarrow> nat \<Rightarrow> bool list \<Rightarrow> bool list \<times> bool list" where
  "jaro_flags bound [] t i t_flag = ([], t_flag)"
| "jaro_flags bound (c # p) t i t_flag =
     (case find (\<lambda>j. \<not> t_flag ! j \<and> t ! j = c) [i - bound ..< min (i + bound + 1) (length t)] of
        None \<Rightarrow> (let (p_flag, t_flag') = jaro_flags bound p t (i + 1) t_flag
                 in (False # p_flag, t_flag'))
      | Some j \<Rightarrow> (let (p_flag, t_flag') = jaro_flags bound p t (i + 1) (t_flag[j := True])
                   in (True # p_flag, t_flag')))"

definition flagged :: "ustring \<Rightarrow> bool list \<Rightarrow> ustring" where
  "flagged s flags = map fst (filter snd (zip s flags))"

definition jaro_similarity :: "ustring \<Rightarrow> ustring \<Rightarrow> rat" where
  "jaro_similarity p t =
     (if p = [] \<and> t = [] then 1
      else
        let bound = max (length p) (length t) div 2 - 1;
            (p_flag, t_flag) = jaro_flags bound p t 0 (replicate (length t) False);
            p_common = flagged p p_flag;
            t_common = flagged t t_flag;
            common_chars = length p_common;
            transpositions = length (filter (\<lambda>(a, b). a \<noteq> b) (zip p_common t_common)) div 2
        in if common_chars = 0 then 0
           else (of_nat common_chars / of_nat (length p) +
                 of_nat common_chars / of_nat (length t) +
                 (of_nat common_chars - of_nat transpositions) / of_nat common_chars) / 3)"

fun common_prefix_length :: "ustring \<Rightarrow> ustring \<Rightarrow> nat" where
  "common_prefix_length (a # p) (b # t) = (if a = b then Suc (common_prefix_length p t) else 0)"
| "common_prefix_length p t = 0"

definition jaro_winkler_similarity :: "ustring \<Rightarrow> ustring \<Rightarrow> rat" where
  "jaro_winkler_similarity p t =
     (let prefix = common_prefix_length (take 4 p) (take 4 t);
          sim = jaro_similarity p t
      in if sim > 0.7 then min 1 (sim + of_nat prefix * 0.1 * (1 - sim)) else sim)"

fun lcs_length :: "ustring \<Rightarrow> ustring \<Rightarrow> nat" where
  "lcs_length [] t = 0"
| "lcs_length p [] = 0"
| "lcs_length (a # p) (b # t) =
     (if a = b then Suc (lcs_length p t) else max (lcs_length p (b # t)) (lcs_length (a # p) t))"

definition indel_distance :: "ustring \<Rightarrow> ustring \<Rightarrow> nat" where
  "indel_distance p t = length p + length t - 2 * lcs_length p t"

definition norm_distance :: "nat \<Rightarrow> nat \<Rightarrow> rat" where
  "norm_distance d lensum = (if lensum = 0 then 100 else 100 - 100 * of_nat d / of_nat lensum)"

definition ref_token_set_ratio :: "ucd \<Rightarrow> ustring \<Rightarrow> ustring \<Rightarrow> rat" where
  "ref_token_set_ratio U s1 s2 =
     (let tokens_a = remdups (py_split U s1);
          tokens_b = remdups (py_split U s2)
      in
      if tokens_a = [] \<or> tokens_b = [] then 0
      else
        let intersect = filter (\<lambda>x. x \<in> set tokens_b) tokens_a;
            diff_ab = filter (\<lambda>x. x \<notin> set tokens_b) tokens_a;
            diff_ba = filter (\<lambda>x. x \<notin> set tokens_a) tokens_b
        in
        if intersect \<noteq> [] \<and> (diff_ab = [] \<or> diff_ba = []) then 100
        else
          let diff_ab_joined = py_join [32] (sort diff_ab);
              diff_ba_joined = py_join [32] (sort diff_ba);
              ab_len = length diff_ab_joined;
              ba_len = length diff_ba_joined;
              sect_len = length (py_join [32] intersect);
              sep = (if sect_len \<noteq> 0 then 1 else 0);
              sect_ab_len = sect_len + sep + ab_len;
              sect_ba_len = sect_len + sep + ba_len;
              result = norm_distance (indel_distance diff_ab_joined diff_ba_joined)
                         (sect_ab_len + sect_ba_len)
          in
          if sect_len = 0 then result
          else
            let sect_ab_ratio = norm_distance (sep + ab_len) (sect_len + sect_ab_len);
                sect_ba_ratio = norm_distance (sep + ba_len) (sect_len + sect_ba_len)
            in max result (max sect_ab_ratio sect_ba_ratio))"

definition rapidfuzz_ref :: rapidfuzz where
  "rapidfuzz_ref =
     \<lparr> JaroWinkler_similarity = jaro_winkler_similarity,
       token_set_ratio = ref_token_set_ratio ucd_sample \<rparr>"

section \<open>Example data (match\_test.py)\<close>

definition prof_verdi :: "nat professor" where
  "prof_verdi =
     \<lparr> p_id = Some 1, p_nome_completo = Some (str ''Giuseppe VERDI''),
       p_nome_completo_normalized = None, p_nome_completo_tokens = None,
       p_nome_completo_original = None \<rparr>"

definition prof_rossi :: "nat professor" where
  "prof_rossi =
     \<lparr> p_id = Some 2, p_nome_completo = Some (str ''Maria ROSSI''),
       p_nome_completo_normalized = None, p_nome_completo_tokens = None,
       p_nome_completo_original = None \<rparr>"

definition author_verdi :: author where
  "author_verdi =
     \<lparr> a_display_name = Some (str ''G. Verdi''),
       a_orcid = Some (str ''0000-0000-0000-0001''),
       a_display_name_normalized = None, a_display_name_tokens = None \<rparr>"

definition author_rossi :: author where
  "author_rossi =
     \<lparr> a_display_name = Some (str ''M. Rossi''),
       a_orcid = Some (str ''0000-0000-0000-0002''),
       a_display_name_normalized = None, a_display_name_tokens = None \<rparr>"

definition example_authors :: "(ustring \<times> author) list" where
  "example_authors = [(str ''A123'', author_verdi), (str ''A456'', author_rossi)]"

definition example_matches :: "(nat, ustring) candidate list" where
  "example_matches =
     [(96, prof_verdi, str ''A123'', ''display_name''),
      (96, prof_rossi, str ''A123'', ''display_name''),
      (90, prof_rossi, str ''A456'', ''display_name'')]"

text \<open>Two registry records without the \<open>id\<close> key.\<close>

definition prof_bianchi :: "nat professor" where
  "prof_bianchi =
     \<lparr> p_id = None, p_nome_completo = Some (str ''Anna BIANCHI''),
       p_nome_completo_normalized = None, p_nome_completo_tokens = None,
       p_nome_completo_original = None \<rparr>"

definition prof_neri :: "nat professor" where
  "prof_neri =
     \<lparr> p_id = None, p_nome_completo = Some (str ''Luca NERI''),
       p_nome_completo_normalized = None, p_nome_completo_tokens = None,
       p_nome_completo_original = None \<rparr>"

section \<open>The scorer on raw names (matching\_functionsV3.py)\<close>

text \<open>
  The earlier module scores two raw name strings; it normalises without Unicode
  decomposition and parses the professor's name from the normalised tokens.
  \<open>is_initial\<close> and \<open>extract_initial\<close> are those of the later module, word for word.
\<close>

definition normalize_name_v3 :: "ucd \<Rightarrow> ustring \<Rightarrow> ustring" where
  "normalize_name_v3 U name =
     (if name = [] then []
      else
        let name = map sub_dashes name;
            name = map sub_apostrophes name
        in collapse_ws (cp_isspace U) False (py_strip U name))"

definition parse_professor_name_v3 :: "ucd \<Rightarrow> ustring list \<Rightarrow> ustring \<times> ustring" where
  "parse_professor_name_v3 U prof_tokens =
     (if length prof_tokens < 2 then ([], [])
      else
        let cognome_tokens = filter (py_isupper U) prof_tokens;
            nome_tokens = filter (\<lambda>token. \<not> py_isupper U token) prof_tokens;
            prof_nome = py_join [32] nome_tokens;
            prof_cognome = py_join [32] cognome_tokens
        in if prof_cognome = [] then (py_join [32] (drop 1 prof_tokens), prof_tokens ! 0)
           else (prof_nome, prof_cognome))"

definition parse_author_name_v3 :: "ucd \<Rightarrow> ustring list \<Rightarrow> py_error + (ustring \<times> cognome)" where
  "parse_author_name_v3 U author_tokens =
     (if author_tokens = [] then Inl IndexError
      else if is_initial U (author_tokens ! 0) \<and> length author_tokens = 2 then
        (case extract_initial (author_tokens ! 0) of
           Inl e \<Rightarrow> Inl e
         | Inr initial \<Rightarrow> Inr (initial, CognomeStr (author_tokens ! 1)))
      else if length author_tokens = 2 then
        Inr (author_tokens ! 0, CognomeStr (author_tokens ! 1))
      else if length author_tokens > 6 then Inr ([], CognomeStr [])
      else Inr ([], CognomeList author_tokens))"

text \<open>The dictionary literal gives the key \<open>francesco\<close> twice; the later entry stays.\<close>

definition abbreviations_v3 :: "ustring \<rightharpoonup> ustring list" where
  "abbreviations_v3 =
     [str ''giuseppe'' \<mapsto> [str ''peppe'', str ''beppe'', str ''pino''],
      str ''giovanni'' \<mapsto> [str ''gianni'', str ''nino''],
      str ''francesco'' \<mapsto> [str ''franco'', str ''checco''],
      str ''alessandro'' \<mapsto> [str ''sandro'', str ''alex''],
      str ''antonio'' \<mapsto> [str ''toni'', str ''tonino''],
      str ''maria'' \<mapsto> [str ''mary''],
      str ''francesco'' \<mapsto> [str ''franco'']]"

definition check_common_abbreviations_v3 :: "ucd \<Rightarrow> ustring \<Rightarrow> ustring \<Rightarrow> bool" where
  "check_common_abbreviations_v3 U full_name abbrev_name =
     (let full_lower = py_lower U (normalize_name_v3 U full_name);
          abbrev_lower = py_lower U (normalize_name_v3 U abbrev_name)
      in case abbreviations_v3 full_lower of
           Some abbrevs \<Rightarrow> abbrev_lower \<in> set abbrevs
         | None \<Rightarrow> False)"

definition initial_bonus_step_v3 ::
  "ucd \<Rightarrow> ustring \<Rightarrow> ustring \<Rightarrow> rat \<Rightarrow> py_error + rat" where
  "initial_bonus_step_v3 U prof_token author_token initial_bonus =
     (if is_initial U author_token then
        (case extract_initial author_token of
           Inl e \<Rightarrow> Inl e
         | Inr i \<Rightarrow>
             let initial = py_upper U i in
             if startswith (py_upper U (normalize_name_v3 U prof_token)) initial
             then Inr (initial_bonus + 10) else Inr initial_bonus)
      else if is_initial U prof_token then
        (case extract_initial prof_token of
           Inl e \<Rightarrow> Inl e
         | Inr i \<Rightarrow>
             let initial = py_upper U i in
             if startswith (py_upper U (normalize_name_v3 U author_token)) initial
             then Inr (initial_bonus + 10) else Inr initial_bonus)
      else Inr initial_bonus)"

fun initial_bonus_inner_v3 ::
  "ucd \<Rightarrow> ustring \<Rightarrow> ustring list \<Rightarrow> rat \<Rightarrow> py_error + rat" where
  "initial_bonus_inner_v3 U prof_token [] initial_bonus = Inr initial_bonus"
| "initial_bonus_inner_v3 U prof_token (author_token # author_tokens) initial_bonus =
     (case initial_bonus_step_v3 U prof_token author_token initial_bonus of
        Inl e \<Rightarrow> Inl e
      | Inr b \<Rightarrow> initial_bonus_inner_v3 U prof_token author_tokens b)"

fun initial_bonus_outer_v3 ::
  "ucd \<Rightarrow> ustring list \<Rightarrow> ustring list \<Rightarrow> rat \<Rightarrow> py_error + rat" where
  "initial_bonus_outer_v3 U [] author_tokens initial_bonus = Inr initial_bonus"
| "initial_bonus_outer_v3 U (prof_token # prof_tokens) author_tokens initial_bonus =
     (case initial_bonus_inner_v3 U prof_token author_tokens initial_bonus of
        Inl e \<Rightarrow> Inl e
      | Inr b \<Rightarrow> initial_bonus_outer_v3 U prof_tokens author_tokens b)"

definition calculate_token_set_score ::
  "ucd \<Rightarrow> rapidfuzz \<Rightarrow> ustring list \<Rightarrow> ustring list \<Rightarrow> py_error + rat" where
  "calculate_token_set_score U L prof_tokens author_tokens =
     (let prof_tokens_clean =
            map (\<lambda>token. py_upper U (normalize_name_v3 U token)) (filter (py_isalpha U) prof_tokens);
          author_tokens_clean =
            map (\<lambda>token. py_upper U (normalize_name_v3 U token)) (filter (py_isalpha U) author_tokens);
          token_set_score =
            token_set_ratio L (py_join [32] prof_tokens_clean) (py_join [32] author_tokens_clean)
      in case initial_bonus_outer_v3 U prof_tokens author_tokens 0 of
           Inl e \<Rightarrow> Inl e
         | Inr initial_bonus \<Rightarrow> Inr (min 100 (token_set_score + initial_bonus)))"

definition calculate_first_name_score ::
  "ucd \<Rightarrow> rapidfuzz \<Rightarrow> ustring \<Rightarrow> ustring \<Rightarrow> py_error + rat" where
  "calculate_first_name_score U L prof_nome0 author_first0 =
     (let prof_nome = py_strip U prof_nome0;
          author_first = py_strip U author_first0
      in
      if is_initial U author_first then
        (case extract_initial author_first of
           Inl e \<Rightarrow> Inl e
         | Inr initial \<Rightarrow>
             if prof_nome \<noteq> [] \<and> py_upper U [prof_nome ! 0] = py_upper U initial
             then Inr 95 else Inr 10)
      else if is_initial U prof_nome then
        (case extract_initial prof_nome of
           Inl e \<Rightarrow> Inl e
         | Inr initial \<Rightarrow>
             if author_first \<noteq> [] \<and> py_upper U [author_first ! 0] = py_upper U initial
             then Inr 95 else Inr 10)
      else
        let prof_nome_norm = py_upper U (normalize_name_v3 U prof_nome);
            author_first_norm = py_upper U (normalize_name_v3 U author_first);
            jaro_score = JaroWinkler_similarity L prof_nome_norm author_first_norm * 100
        in if check_common_abbreviations_v3 U prof_nome author_first
           then Inr (min 100 (jaro_score + 10)) else Inr jaro_score)"

text \<open>\<open>calculate_name_score\<close>, lines 141 to 196.\<close>

definition calculate_name_score ::
  "ucd \<Rightarrow> rapidfuzz \<Rightarrow> ustring \<Rightarrow> ustring \<Rightarrow> py_error + rat" where
  "calculate_name_score U L prof_name author_name =
     (if prof_name = [] \<or> author_name = [] then Inr 0
      else
        let prof_clean = normalize_name_v3 U prof_name;
            author_clean = normalize_name_v3 U author_name;
            prof_tokens = py_split U prof_clean;
            author_tokens = py_split U author_clean
        in
        if length prof_tokens < 2 \<or> length author_tokens < 2 then
          Inr (JaroWinkler_similarity L prof_clean author_clean * 100)
        else
          let (prof_nome, prof_cognome) = parse_professor_name_v3 U prof_tokens in
          case parse_author_name_v3 U author_tokens of
            Inl e \<Rightarrow> Inl e
          | Inr (author_nome, CognomeList author_cognome) \<Rightarrow>
              calculate_token_set_score U L prof_tokens author_tokens
          | Inr (author_nome, CognomeStr author_cognome) \<Rightarrow>
              let prof_cognome_norm = py_upper U (normalize_name_v3 U prof_cognome);
                  author_cognome_norm = py_upper U (normalize_name_v3 U author_cognome);
                  cognome_score =
                    JaroWinkler_similarity L prof_cognome_norm author_cognome_norm * 100
              in
              case calculate_first_name_score U L prof_nome author_nome of
                Inl e \<Rightarrow> Inl e
              | Inr nome_score \<Rightarrow> Inr (combine_scores cognome_score nome_score))"

text \<open>A registry record and a candidate of seven tokens, both preprocessed.\<close>

definition prof_mario :: "nat professor" where
  "prof_mario =
     \<lparr> p_id = Some 3, p_nome_completo = Some (str ''Mario ROSSI''),
       p_nome_completo_normalized = Some (str ''Mario ROSSI''),
       p_nome_completo_tokens = Some [str ''Mario'', str ''ROSSI''],
       p_nome_completo_original = Some (str ''Mario ROSSI'') \<rparr>"

definition author_long :: author where
  "author_long =
     \<lparr> a_display_name = Some (str ''Mario Rossi A B C D E''),
       a_orcid = None,
       a_display_name_normalized = Some (str ''Mario Rossi A B C D E''),
       a_display_name_tokens =
         Some [str ''Mario'', str ''Rossi'', str ''A'', str ''B'', str ''C'', str ''D'', str ''E''] \<rparr>"

section \<open>The registry parser as the specification words it\<close>

text \<open>
  The specification's registry variant: a token composed entirely of upper-case alphabetic
  characters belongs to the family name, every other token to the given name, each group
  in the order of the tokens; when no token qualifies, the first token is the family name and
  the remaining tokens are the given name.  The result is the pair (given, family), as the
  code returns it.
\<close>

definition uppercase_alphabetic :: "ucd \<Rightarrow> ustring \<Rightarrow> bool" where
  "uppercase_alphabetic U token =
     (token \<noteq> [] \<and> list_all (\<lambda>c. cp_isupper U c \<and> cp_isalpha U c) token)"

definition spec_parse_registry_name :: "ucd \<Rightarrow> ustring list \<Rightarrow> ustring \<times> ustring" where
  "spec_parse_registry_name U tokens =
     (if list_ex (uppercase_alphabetic U) tokens
      then (py_join [32] (filter (\<lambda>token. \<not> uppercase_alphabetic U token) tokens),
            py_join [32] (filter (uppercase_alphabetic U) tokens))
      else (py_join [32] (drop 1 tokens), tokens ! 0))"

text \<open>The registry name \<open>Maria D'ANGELO\<close>; the apostrophe is the code point 39.\<close>

definition d_angelo :: ustring where
  "d_angelo = str ''D'' @ [39] @ str ''ANGELO''"

definition maria_d_angelo :: ustring where
  "maria_d_angelo = str ''Maria '' @ d_angelo"

text \<open>A character that the filter and the three substitutions of \<open>normalize_name\<close> leave alone.\<close>

definition settled :: "ucd \<Rightarrow> cp \<Rightarrow> bool" where
  "settled U c = (\<not> is_Mn U c \<and> sub_dashes c = c \<and> sub_apostrophes c = c \<and> sub_commas c = c)"

text \<open>
  A class \<open>P\<close> of characters that \<open>unicodedata.normalize('NFD', _)\<close> leaves alone: every
  string over \<open>P\<close> is its own canonical decomposition.  In Unicode the ASCII range is such a
  class (no ASCII character has a decomposition or a non-zero combining class).
\<close>

definition nfd_leaves :: "ucd \<Rightarrow> (cp \<Rightarrow> bool) \<Rightarrow> bool" where
  "nfd_leaves U P = (\<forall>t. list_all P t \<longrightarrow> nfd U t = t)"

section \<open>Greedy institution matching (mathcinguniv2.py)\<close>

record miur_row =
  NomeOperativo :: ustring
  NomeEsteso :: ustring
  nome_pulito :: ustring

text \<open>The key \<open>alternatives_pulite\<close> may be absent from a row; the code tests for it.\<close>

record 'a oa_row =
  oa_id :: 'a
  oa_display_name :: ustring
  display_name_pulito :: ustring
  display_name_alternatives :: "ustring list"
  alternatives_pulite :: "ustring list option"

record 'a institution_match =
  im_score :: rat
  nome_operativo_miur :: ustring
  nome_esteso_miur :: ustring
  display_name_oa :: "ustring option"
  id_openalex :: 'a
  im_match_type :: "string option"

text \<open>\<open>calculate_institution_score\<close>, lines 46 to 68.\<close>

definition calculate_institution_score :: "ucd \<Rightarrow> rapidfuzz \<Rightarrow> ustring \<Rightarrow> ustring \<Rightarrow> rat" where
  "calculate_institution_score U L miur_clean oa_clean =
     (if miur_clean = [] \<or> oa_clean = [] then 0
      else if length (py_strip U miur_clean) < 2 \<or> length (py_strip U oa_clean) < 2 then 0
      else
        let miur_upper = py_upper U miur_clean;
            oa_upper = py_upper U oa_clean;
            jaro_score = JaroWinkler_similarity L miur_upper oa_upper * 100;
            token_score = token_set_ratio L miur_upper oa_upper
        in max jaro_score token_score)"

text \<open>The four \<open>best_\<close> variables of the search for one MIUR row.\<close>

record best =
  best_score :: rat
  best_match_idx :: "nat option"
  best_match_type :: "string option"
  best_oa_name :: "ustring option"

text \<open>
  The loop over \<open>enumerate(oa_row['alternatives_pulite'])\<close>, from index \<open>alt_idx\<close> on;
  \<open>oa_row['display_name_alternatives'][alt_idx]\<close> raises when the list is too short.
\<close>

fun best_over_alternatives ::
  "ucd \<Rightarrow> rapidfuzz \<Rightarrow> ustring \<Rightarrow> nat \<Rightarrow> ustring list \<Rightarrow> nat \<Rightarrow> ustring list \<Rightarrow> best
     \<Rightarrow> py_error + best" where
  "best_over_alternatives U L miur_clean oa_idx names alt_idx [] b = Inr b"
| "best_over_alternatives U L miur_clean oa_idx names alt_idx (alt_clean # rest) b =
     (if alt_clean \<noteq> [] then
        let alt_score = calculate_institution_score U L miur_clean alt_clean in
        if alt_score > best_score b then
          (if alt_idx < length names then
             best_over_alternatives U L miur_clean oa_idx names (alt_idx + 1) rest
               \<lparr> best_score = alt_score, best_match_idx = Some oa_idx,
                 best_match_type = Some ''alternative'',
                 best_oa_name = Some (names ! alt_idx) \<rparr>
           else Inl IndexError)
        else best_over_alternatives U L miur_clean oa_idx names (alt_idx + 1) rest b
      else best_over_alternatives U L miur_clean oa_idx names (alt_idx + 1) rest b)"

text \<open>The loop over \<open>range(len(oa_stack))\<close>: \<open>rows\<close> are the rows from index \<open>oa_idx\<close> on.\<close>

fun best_over_openalex ::
  "ucd \<Rightarrow> rapidfuzz \<Rightarrow> ustring \<Rightarrow> rat \<Rightarrow> nat set \<Rightarrow> nat \<Rightarrow> 'a oa_row list \<Rightarrow> best
     \<Rightarrow> py_error + best" where
  "best_over_openalex U L miur_clean threshold used_openalex oa_idx [] b = Inr b"
| "best_over_openalex U L miur_clean threshold used_openalex oa_idx (oa_row # rows) b =
     (if oa_idx \<in> used_openalex then
        best_over_openalex U L miur_clean threshold used_openalex (oa_idx + 1) rows b
      else
        let oa_clean = display_name_pulito oa_row;
            score = calculate_institution_score U L miur_clean oa_clean;
            b1 = (if score > best_score b
                  then \<lparr> best_score = score, best_match_idx = Some oa_idx,
                         best_match_type = Some ''display_name'',
                         best_oa_name = Some (oa_display_name oa_row) \<rparr>
                  else b)
        in
        case (if best_score b1 < threshold
              then (case alternatives_pulite oa_row of
                      None \<Rightarrow> Inr b1
                    | Some alts \<Rightarrow>
                        best_over_alternatives U L miur_clean oa_idx
                          (display_name_alternatives oa_row) 0 alts b1)
              else Inr b1) of
          Inl e \<Rightarrow> Inl e
        | Inr b2 \<Rightarrow>
            best_over_openalex U L miur_clean threshold used_openalex (oa_idx + 1) rows b2)"

text \<open>The outer loop, over the MIUR rows, with \<open>final_matches\<close> and \<open>used_openalex\<close>.\<close>

fun greedy_loop ::
  "ucd \<Rightarrow> rapidfuzz \<Rightarrow> miur_row list \<Rightarrow> 'a oa_row list \<Rightarrow> rat
     \<Rightarrow> 'a institution_match list \<Rightarrow> nat set \<Rightarrow> py_error + 'a institution_match list" where
  "greedy_loop U L [] oa_stack threshold final used_openalex = Inr final"
| "greedy_loop U L (miur_row # rest) oa_stack threshold final used_openalex =
     (let miur_name = NomeOperativo miur_row;
          miur_clean = nome_pulito miur_row
      in
      case best_over_openalex U L miur_clean threshold used_openalex 0 oa_stack
             \<lparr> best_score = 0, best_match_idx = None, best_match_type = None,
               best_oa_name = None \<rparr> of
        Inl e \<Rightarrow> Inl e
      | Inr b \<Rightarrow>
          (case best_match_idx b of
             Some idx \<Rightarrow>
               if best_score b \<ge> threshold then
                 greedy_loop U L rest oa_stack threshold
                   (final @
                      [\<lparr> im_score = best_score b,
                         nome_operativo_miur = miur_name,
                         nome_esteso_miur = NomeEsteso miur_row,
                         display_name_oa = best_oa_name b,
                         id_openalex = oa_id (oa_stack ! idx),
                         im_match_type = best_match_type b \<rparr>])
                   (insert idx used_openalex)
               else greedy_loop U L rest oa_stack threshold final used_openalex
           | None \<Rightarrow> greedy_loop U L rest oa_stack threshold final used_openalex))"

text \<open>\<open>greedy_institution_matching\<close>, lines 70 to 131.\<close>

definition greedy_institution_matching ::
  "ucd \<Rightarrow> rapidfuzz \<Rightarrow> miur_row list \<Rightarrow> 'a oa_row list \<Rightarrow> rat
     \<Rightarrow> py_error + 'a institution_match list" where
  "greedy_institution_matching U L miur_stack oa_stack threshold =
     greedy_loop U L miur_stack oa_stack threshold [] {}"

subsection \<open>Two left entries and one contested right entry\<close>

definition miur_ab :: miur_row where
  "miur_ab = \<lparr> NomeOperativo = str ''AB'', NomeEsteso = str ''AB'', nome_pulito = str ''AB'' \<rparr>"

definition miur_ac :: miur_row where
  "miur_ac = \<lparr> NomeOperativo = str ''AC'', NomeEsteso = str ''AC'', nome_pulito = str ''AC'' \<rparr>"

definition oa_ac :: "nat oa_row" where
  "oa_ac = \<lparr> oa_id = 1, oa_display_name = str ''AC'', display_name_pulito = str ''AC'',
             display_name_alternatives = [], alternatives_pulite = Some [] \<rparr>"

definition oa_xy :: "nat oa_row" where
  "oa_xy = \<lparr> oa_id = 2, oa_display_name = str ''XY'', display_name_pulito = str ''XY'',
             display_name_alternatives = [], alternatives_pulite = Some [] \<rparr>"

text \<open>The same entries as records of the professor pipeline.\<close>

definition prof_ab :: "nat professor" where
  "prof_ab =
     \<lparr> p_id = Some 1, p_nome_completo = Some (str ''AB''),
       p_nome_completo_normalized = None, p_nome_completo_tokens = None,
       p_nome_completo_original = None \<rparr>"

definition prof_ac :: "nat professor" where
  "prof_ac =
     \<lparr> p_id = Some 2, p_nome_completo = Some (str ''AC''),
       p_nome_completo_normalized = None, p_nome_completo_tokens = None,
       p_nome_completo_original = None \<rparr>"

definition author_ac :: author where
  "author_ac =
     \<lparr> a_display_name = Some (str ''AC''), a_orcid = None,
       a_display_name_normalized = None, a_display_name_tokens = None \<rparr>"

definition author_xy :: author where
  "author_xy =
     \<lparr> a_display_name = Some (str ''XY''), a_orcid = None,
       a_display_name_normalized = None, a_display_name_tokens = None \<rparr>"

text \<open>
  Every pair of a left and a right entry, in the order of enumeration, scored by
  \<open>calculate_institution_score\<close> on the sample tables and the reference library.
\<close>

definition contested_matches :: "(nat, nat) candidate list" where
  "contested_matches =
     [(calculate_institution_score ucd_sample rapidfuzz_ref (str ''AB'') (str ''AC''),
       prof_ab, 1, ''display_name''),
      (calculate_institution_score ucd_sample rapidfuzz_ref (str ''AB'') (str ''XY''),
       prof_ab, 2, ''display_name''),
      (calculate_institution_score ucd_sample rapidfuzz_ref (str ''AC'') (str ''AC''),
       prof_ac, 1, ''display_name''),
      (calculate_institution_score ucd_sample rapidfuzz_ref (str ''AC'') (str ''XY''),
       prof_ac, 2, ''display_name'')]"

section \<open>The oldest registry parser (old\_versions/matching\_functions.py)\<close>

text \<open>
  The oldest module takes a token for the family name when \<open>token.isupper() and
  token.isalpha()\<close>; in the fallback it appends the pair to the file
  \<open>anomalie_prof.csv\<close>.  The second component of the result is the row written, if any.
\<close>

definition parse_professor_name_old ::
  "ucd \<Rightarrow> ustring list \<Rightarrow> (ustring \<times> ustring) \<times> (ustring \<times> ustring) option" where
  "parse_professor_name_old U prof_tokens =
     (if length prof_tokens < 2 then (([], []), None)
      else
        let cognome_tokens =
              filter (\<lambda>token. py_isupper U token \<and> py_isalpha U token) prof_tokens;
            nome_tokens =
              filter (\<lambda>token. \<not> (py_isupper U token \<and> py_isalpha U token)) prof_tokens;
            prof_nome = py_join [32] nome_tokens;
            prof_cognome = py_join [32] cognome_tokens
        in if prof_cognome = [] then
             (let prof_cognome = prof_tokens ! 0;
                  prof_nome = py_join [32] (drop 1 prof_tokens)
              in ((prof_nome, prof_cognome), Some (prof_cognome, prof_nome)))
           else ((prof_nome, prof_cognome), None))"

text \<open>Tables in which every alphabetic character is cased, as on the ASCII range.\<close>

definition letters_cased :: "ucd \<Rightarrow> bool" where
  "letters_cased U =
     (\<forall>c. cp_isalpha U c \<longrightarrow>
            (cp_isupper U c \<longleftrightarrow> \<not> cp_islower U c \<and> \<not> cp_istitle U c))"

section \<open>Properties of resolve\_matches\<close>

lemma str_simps: "str [] = []" "str (c # cs) = of_char c # str cs"
  by (simp_all add: str_def)

lemma resolve_loop_Cons:
  "resolve_loop (c # rest) A thr st =
     (if cand_score c < thr then Inr st
      else if p_id (cand_prof c) \<notin> used_professors st \<and> cand_author_id c \<notin> used_authors st
      then (case A (cand_author_id c) of
              None \<Rightarrow> Inl KeyError
            | Some author_data \<Rightarrow>
                resolve_loop rest A thr
                  \<lparr> final_matches = final_matches st @
                       [make_match_result (cand_score c) (cand_prof c) (cand_author_id c) author_data],
                    used_professors = insert (p_id (cand_prof c)) (used_professors st),
                    used_authors = insert (cand_author_id c) (used_authors st) \<rparr>)
      else resolve_loop rest A thr st)"
  by (cases c) (simp add: cand_score_def cand_prof_def cand_author_id_def Let_def split: option.splits)

lemma resolve_loop_emitted:
  "resolve_loop ms A thr st = Inr st' \<Longrightarrow>
     \<exists>new. final_matches st' = final_matches st @ new \<and>
       list_all2 (emitted_for A) new
         (committed_from ms thr (used_professors st) (used_authors st))"
proof (induction ms arbitrary: st)
  case Nil
  then show ?case by simp
next
  case (Cons c rest)
  show ?case
  proof (cases "cand_score c < thr")
    case True
    with Cons.prems show ?thesis by (simp add: resolve_loop_Cons)
  next
    case above: False
    show ?thesis
    proof (cases "p_id (cand_prof c) \<notin> used_professors st \<and> cand_author_id c \<notin> used_authors st")
      case free: True
      show ?thesis
      proof (cases "A (cand_author_id c)")
        case None
        with above free Cons.prems show ?thesis by (simp add: resolve_loop_Cons)
      next
        case (Some ad)
        let ?m = "make_match_result (cand_score c) (cand_prof c) (cand_author_id c) ad"
        let ?st = "\<lparr> final_matches = final_matches st @ [?m],
                    used_professors = insert (p_id (cand_prof c)) (used_professors st),
                    used_authors = insert (cand_author_id c) (used_authors st) \<rparr>"
        from above free Some Cons.prems have "resolve_loop rest A thr ?st = Inr st'"
          by (simp add: resolve_loop_Cons)
        from Cons.IH [OF this] obtain new where
          new: "final_matches st' = (final_matches st @ [?m]) @ new"
            "list_all2 (emitted_for A) new
               (committed_from rest thr (insert (p_id (cand_prof c)) (used_professors st))
                  (insert (cand_author_id c) (used_authors st)))"
          by auto
        have "emitted_for A ?m c" by (simp add: emitted_for_def Some)
        with new above free show ?thesis by auto
      qed
    next
      case False
      with above Cons.prems have "resolve_loop rest A thr st = Inr st'"
        by (auto simp add: resolve_loop_Cons)
      from Cons.IH [OF this] above False show ?thesis by auto
    qed
  qed
qed

lemma committed_from_prof_fresh:
  "c \<in> set (committed_from ms thr up ua) \<Longrightarrow> p_id (cand_prof c) \<notin> up"
proof (induction ms arbitrary: up ua)
  case Nil
  then show ?case by simp
next
  case (Cons x ms)
  show ?case
  proof (cases "\<not> cand_score x < thr \<and> p_id (cand_prof x) \<notin> up \<and> cand_author_id x \<notin> ua")
    case True
    with Cons.prems have "c = x \<or>
      c \<in> set (committed_from ms thr (insert (p_id (cand_prof x)) up) (insert (cand_author_id x) ua))"
      by simp
    then show ?thesis
    proof
      assume "c = x" with True show ?thesis by simp
    next
      assume "c \<in> set (committed_from ms thr (insert (p_id (cand_prof x)) up) (insert (cand_author_id x) ua))"
      from Cons.IH [OF this] show ?thesis by simp
    qed
  next
    case False
    with Cons.prems have "c \<in> set (committed_from ms thr up ua)"
      by (auto split: if_splits)
    from Cons.IH [OF this] show ?thesis .
  qed
qed

lemma committed_from_author_fresh:
  "c \<in> set (committed_from ms thr up ua) \<Longrightarrow> cand_author_id c \<notin> ua"
proof (induction ms arbitrary: up ua)
  case Nil
  then show ?case by simp
next
  case (Cons x ms)
  show ?case
  proof (cases "\<not> cand_score x < thr \<and> p_id (cand_prof x) \<notin> up \<and> cand_author_id x \<notin> ua")
    case True
    with Cons.prems have "c = x \<or>
      c \<in> set (committed_from ms thr (insert (p_id (cand_prof x)) up) (insert (cand_author_id x) ua))"
      by simp
    then show ?thesis
    proof
      assume "c = x" with True show ?thesis by simp
    next
      assume "c \<in> set (committed_from ms thr (insert (p_id (cand_prof x)) up) (insert (cand_author_id x) ua))"
      from Cons.IH [OF this] show ?thesis by simp
    qed
  next
    case False
    with Cons.prems have "c \<in> set (committed_from ms thr up ua)"
      by (auto split: if_splits)
    from Cons.IH [OF this] show ?thesis .
  qed
qed

lemma committed_from_profs:
  "distinct (map (\<lambda>c. p_id (cand_prof c)) (committed_from ms thr up ua))"
proof (induction ms arbitrary: up ua)
  case Nil
  then show ?case by simp
next
  case (Cons x ms)
  have "p_id (cand_prof x) \<notin> (\<lambda>c. p_id (cand_prof c)) `
          set (committed_from ms thr (insert (p_id (cand_prof x)) up) (insert (cand_author_id x) ua))"
    using committed_from_prof_fresh by fastforce
  with Cons.IH show ?case by simp
qed

lemma committed_from_authors:
  "distinct (map cand_author_id (committed_from ms thr up ua))"
proof (induction ms arbitrary: up ua)
  case Nil
  then show ?case by simp
next
  case (Cons x ms)
  have "cand_author_id x \<notin> cand_author_id `
          set (committed_from ms thr (insert (p_id (cand_prof x)) up) (insert (cand_author_id x) ua))"
    using committed_from_author_fresh by fastforce
  with Cons.IH show ?case by simp
qed

lemma committed_from_score:
  "c \<in> set (committed_from ms thr up ua) \<Longrightarrow> thr \<le> cand_score c"
  by (induction ms arbitrary: up ua) (auto split: if_splits)




lemma emitted_for_author_id: "emitted_for A m c \<Longrightarrow> m_author_id m = cand_author_id c"
  by (auto simp: emitted_for_def make_match_result_def split: option.splits)

lemma emitted_for_score: "emitted_for A m c \<Longrightarrow> m_score m = cand_score c"
  by (auto simp: emitted_for_def make_match_result_def split: option.splits)

lemma list_all2_map_eq:
  "list_all2 R xs ys \<Longrightarrow> (\<And>x y. R x y \<Longrightarrow> f x = g y) \<Longrightarrow> map f xs = map g ys"
  by (induction rule: list_all2_induct) auto

lemma list_all2_in_left:
  "list_all2 R xs ys \<Longrightarrow> x \<in> set xs \<Longrightarrow> \<exists>y \<in> set ys. R x y"
  by (induction rule: list_all2_induct) auto

lemma resolve_matches_emitted:
  assumes "resolve_matches ms A thr = Inr out"
  shows "list_all2 (emitted_for A) out (committed ms thr)"
proof -
  from assms obtain st where
    st: "resolve_loop ms A thr \<lparr> final_matches = [], used_professors = {}, used_authors = {} \<rparr> = Inr st"
      and out: "out = final_matches st"
    by (auto simp: resolve_matches_def split: sum.splits)
  from resolve_loop_emitted [OF st] out show ?thesis by (simp add: committed_def)
qed





lemma resolve_loop_returns:
  "\<forall>c \<in> set ms. cand_author_id c \<in> dom A \<Longrightarrow> \<exists>st'. resolve_loop ms A thr st = Inr st'"
  by (induction ms arbitrary: st) (auto simp: resolve_loop_Cons simp del: resolve_loop.simps(2))

lemma resolve_matches_returns:
  "\<forall>c \<in> set ms. cand_author_id c \<in> dom A \<Longrightarrow> \<exists>out. resolve_matches ms A thr = Inr out"
proof -
  assume "\<forall>c \<in> set ms. cand_author_id c \<in> dom A"
  from resolve_loop_returns [OF this] obtain st' where
    "resolve_loop ms A thr \<lparr> final_matches = [], used_professors = {}, used_authors = {} \<rparr> = Inr st'"
    by blast
  then show ?thesis by (simp add: resolve_matches_def)
qed

lemma resolve_loop_skips_used_professor:
  assumes "p_id (cand_prof c2) \<in> used_professors st \<or>
           (\<exists>c1 \<in> set (committed_from xs thr (used_professors st) (used_authors st)).
              p_id (cand_prof c1) = p_id (cand_prof c2))"
    and "thr \<le> cand_score c2"
  shows "resolve_loop (xs @ c2 # ys) A thr st = resolve_loop (xs @ ys) A thr st"
  using assms
proof (induction xs arbitrary: st)
  case Nil
  then show ?case by (simp add: resolve_loop_Cons del: resolve_loop.simps(2))
next
  case (Cons x xs)
  show ?case
  proof (cases "cand_score x < thr")
    case True
    then show ?thesis by (simp add: resolve_loop_Cons del: resolve_loop.simps(2))
  next
    case above: False
    show ?thesis
    proof (cases "p_id (cand_prof x) \<notin> used_professors st \<and> cand_author_id x \<notin> used_authors st")
      case free: True
      show ?thesis
      proof (cases "A (cand_author_id x)")
        case None
        with above free show ?thesis by (simp add: resolve_loop_Cons del: resolve_loop.simps(2))
      next
        case (Some ad)
        let ?st = "\<lparr> final_matches = final_matches st @
                       [make_match_result (cand_score x) (cand_prof x) (cand_author_id x) ad],
                    used_professors = insert (p_id (cand_prof x)) (used_professors st),
                    used_authors = insert (cand_author_id x) (used_authors st) \<rparr>"
        from Cons.prems above free
        have "p_id (cand_prof c2) \<in> used_professors ?st \<or>
              (\<exists>c1 \<in> set (committed_from xs thr (used_professors ?st) (used_authors ?st)).
                 p_id (cand_prof c1) = p_id (cand_prof c2))"
          by auto
        from Cons.IH [OF this Cons.prems(2)] above free Some show ?thesis
          by (simp add: resolve_loop_Cons del: resolve_loop.simps(2))
      qed
    next
      case False
      with Cons.prems above
      have "p_id (cand_prof c2) \<in> used_professors st \<or>
            (\<exists>c1 \<in> set (committed_from xs thr (used_professors st) (used_authors st)).
               p_id (cand_prof c1) = p_id (cand_prof c2))"
        by auto
      from Cons.IH [OF this Cons.prems(2)] above False show ?thesis
        by (auto simp add: resolve_loop_Cons simp del: resolve_loop.simps(2))
    qed
  qed
qed

text \<open>
  Claim C2.  In the list returned by \<open>resolve_matches\<close> no professor identifier and no author
  identifier appears in more than one emitted match.  The emitted dictionaries are, one by
  one, those built from the committed candidates; the values of \<open>prof.get('id')\<close> of the
  committed candidates are pairwise distinct, and so are their author identifiers, which are
  the \<open>author_id\<close> fields of the emitted matches.
\<close>

theorem resolve_matches_one_to_one:
  assumes "resolve_matches ms A thr = Inr out"
  shows "list_all2 (emitted_for A) out (committed ms thr) \<and>
         distinct (map (\<lambda>c. p_id (cand_prof c)) (committed ms thr)) \<and>
         distinct (map cand_author_id (committed ms thr)) \<and>
         distinct (map m_author_id out)"
proof -
  have e: "list_all2 (emitted_for A) out (committed ms thr)"
    by (rule resolve_matches_emitted [OF assms])
  have "map m_author_id out = map cand_author_id (committed ms thr)"
    by (rule list_all2_map_eq [OF e]) (rule emitted_for_author_id)
  with e committed_from_profs [of ms thr "{}" "{}"] committed_from_authors [of ms thr "{}" "{}"]
  show ?thesis by (simp add: committed_def)
qed

theorem resolve_matches_one_to_one_witness:
  "resolve_matches example_matches (map_of example_authors) 75 =
     Inr [make_match_result 96 prof_verdi (str ''A123'') author_verdi,
          make_match_result 90 prof_rossi (str ''A456'') author_rossi] \<and>
   distinct (map (\<lambda>c. p_id (cand_prof c)) (committed example_matches 75)) \<and>
   distinct (map cand_author_id (committed example_matches 75)) \<and>
   distinct (map m_author_id
     [make_match_result 96 prof_verdi (str ''A123'') author_verdi,
      make_match_result 90 prof_rossi (str ''A456'') author_rossi])"
proof -
  have run: "resolve_matches example_matches (map_of example_authors) 75 =
     Inr [make_match_result 96 prof_verdi (str ''A123'') author_verdi,
          make_match_result 90 prof_rossi (str ''A456'') author_rossi]"
    by (simp add: resolve_matches_def example_matches_def example_authors_def str_simps
        prof_verdi_def prof_rossi_def Let_def)
  from resolve_matches_one_to_one [OF run] run show ?thesis by simp
qed

text \<open>
  Claim C3.  Every match emitted by \<open>resolve_matches\<close> has a score at least the acceptance
  threshold.
\<close>

theorem resolve_matches_threshold:
  assumes "resolve_matches ms A thr = Inr out"
  shows "\<forall>m \<in> set out. thr \<le> m_score m"
proof
  fix m assume m: "m \<in> set out"
  from list_all2_in_left [OF resolve_matches_emitted [OF assms] m] obtain c where
    c: "c \<in> set (committed_from ms thr {} {})" and e: "emitted_for A m c"
    unfolding committed_def by blast
  from committed_from_score [OF c] emitted_for_score [OF e]
  show "thr \<le> m_score m" by simp
qed

theorem resolve_matches_threshold_witness:
  "resolve_matches example_matches (map_of example_authors) 75 =
     Inr [make_match_result 96 prof_verdi (str ''A123'') author_verdi,
          make_match_result 90 prof_rossi (str ''A456'') author_rossi] \<and>
   list_all (\<lambda>m. 75 \<le> m_score m)
     [make_match_result 96 prof_verdi (str ''A123'') author_verdi,
      make_match_result 90 prof_rossi (str ''A456'') author_rossi]"
proof -
  have run: "resolve_matches example_matches (map_of example_authors) 75 =
     Inr [make_match_result 96 prof_verdi (str ''A123'') author_verdi,
          make_match_result 90 prof_rossi (str ''A456'') author_rossi]"
    by (simp add: resolve_matches_def example_matches_def example_authors_def str_simps
        prof_verdi_def prof_rossi_def Let_def)
  from resolve_matches_threshold [OF run] run show ?thesis by (simp add: list_all_iff)
qed

text \<open>
  Claim C10.  \<open>resolve_matches\<close> tells registry records apart by \<open>prof.get('id')\<close> only.  Once
  a candidate has been committed, a later candidate whose professor has the same value of
  \<open>prof.get('id')\<close> (the same identifier, or \<open>None\<close> for two records that both lack the key)
  is skipped, whatever its author, although its score reaches the threshold: the run is the
  run without that candidate.
\<close>

theorem resolve_matches_same_id_skipped:
  assumes "c1 \<in> set (committed xs thr)"
    and "p_id (cand_prof c2) = p_id (cand_prof c1)"
    and "thr \<le> cand_score c2"
  shows "resolve_matches (xs @ c2 # ys) A thr = resolve_matches (xs @ ys) A thr"
proof -
  from assms(1,2) have
    "p_id (cand_prof c2) \<in> {} \<or>
     (\<exists>c \<in> set (committed_from xs thr {} {}). p_id (cand_prof c) = p_id (cand_prof c2))"
    by (auto simp: committed_def)
  then show ?thesis
    using resolve_loop_skips_used_professor
      [of c2 "\<lparr> final_matches = [], used_professors = {}, used_authors = {} \<rparr>" xs thr ys A] assms(3)
    by (simp add: resolve_matches_def)
qed

theorem resolve_matches_same_id_skipped_witness:
  "(90, prof_bianchi, str ''A123'', ''display_name'') \<in>
     set (committed [(90, prof_bianchi, str ''A123'', ''display_name'')] 75) \<and>
   p_id (cand_prof (80, prof_neri, str ''A456'', ''display_name'')) =
     p_id (cand_prof (90, prof_bianchi, str ''A123'', ''display_name'')) \<and>
   (75 :: rat) \<le> cand_score (80, prof_neri, str ''A456'', ''display_name'') \<and>
   resolve_matches
     [(90, prof_bianchi, str ''A123'', ''display_name''),
      (80, prof_neri, str ''A456'', ''display_name'')] (map_of example_authors) 75 =
     Inr [make_match_result 90 prof_bianchi (str ''A123'') author_verdi]"
proof -
  let ?c1 = "(90, prof_bianchi, str ''A123'', ''display_name'') :: (nat, ustring) candidate"
  let ?c2 = "(80, prof_neri, str ''A456'', ''display_name'') :: (nat, ustring) candidate"
  have a: "?c1 \<in> set (committed [?c1] 75)"
    by (simp add: committed_def cand_score_def)
  have b: "p_id (cand_prof ?c2) = p_id (cand_prof ?c1)"
    by (simp add: cand_prof_def prof_bianchi_def prof_neri_def)
  have c: "(75 :: rat) \<le> cand_score ?c2"
    by (simp add: cand_score_def)
  have d: "resolve_matches ([?c1] @ []) (map_of example_authors) 75 =
             Inr [make_match_result 90 prof_bianchi (str ''A123'') author_verdi]"
    by (simp add: resolve_matches_def example_authors_def str_simps Let_def)
  from resolve_matches_same_id_skipped [OF a b c, of "[]" "map_of example_authors"] a b c d
  show ?thesis by simp
qed

section \<open>The scorer never raises and stays in range\<close>

lemma set_py_strip: "set (py_strip U s) \<subseteq> set s"
proof -
  have "set (py_strip U s) \<subseteq> set (dropWhile (cp_isspace U) s)"
    unfolding py_strip_def using set_dropWhileD by fastforce
  also have "\<dots> \<subseteq> set s" using set_dropWhileD by fastforce
  finally show ?thesis .
qed

lemma initial_groups_letter: "initial_groups s \<Longrightarrow> s \<noteq> [] \<Longrightarrow> ascii_letter (hd s)"
  by (cases s rule: initial_groups.cases) auto

lemma match_initial_pattern_letter:
  assumes "match_initial_pattern s"
  shows "\<exists>c \<in> set s. ascii_letter c"
proof -
  from assms have ne: "s \<noteq> []" by (simp add: match_initial_pattern_def)
  from assms consider "initial_groups s"
    | "butlast s \<noteq> []" "initial_groups (butlast s)"
    by (auto simp: match_initial_pattern_def)
  then show ?thesis
  proof cases
    case 1
    from initial_groups_letter [OF 1 ne] ne show ?thesis
      by (meson hd_in_set)
  next
    case 2
    from initial_groups_letter [OF 2(2) 2(1)] 2(1) have "\<exists>c \<in> set (butlast s). ascii_letter c"
      by (meson hd_in_set)
    then show ?thesis by (meson in_set_butlastD)
  qed
qed

lemma extract_initial_of_initial:
  assumes "is_initial U name"
  shows "\<exists>c. extract_initial name = Inr [c]"
proof -
  from assms have "match_initial_pattern (py_strip U name)"
    by (simp add: is_initial_def Let_def)
  from match_initial_pattern_letter [OF this] obtain c where
    "c \<in> set (py_strip U name)" "ascii_letter c" by blast
  with set_py_strip [of U name] have "c \<in> set name" "ascii_letter c" by auto
  then have f: "filter ascii_letter name \<noteq> []" and n: "name \<noteq> []"
    by (auto simp: filter_empty_conv)
  then show ?thesis
    by (cases "filter ascii_letter name") (auto simp: extract_initial_def)
qed

lemma parse_author_name_returns: "\<exists>r. parse_author_name U author_tokens = Inr r"
proof (cases "length author_tokens = 2 \<and> is_initial U (author_tokens ! 0)")
  case True
  then obtain c where "extract_initial (author_tokens ! 0) = Inr [c]"
    using extract_initial_of_initial by blast
  with True show ?thesis by (auto simp: parse_author_name_def)
next
  case False
  then show ?thesis by (auto simp: parse_author_name_def)
qed

lemma initial_bonus_step_returns:
  "\<exists>b'. initial_bonus_step U ptk atk b = Inr b' \<and> b \<le> b'"
proof (cases "is_initial U atk")
  case True
  then obtain c where "extract_initial atk = Inr [c]"
    using extract_initial_of_initial by blast
  with True show ?thesis by (simp add: initial_bonus_step_def Let_def)
next
  case False
  show ?thesis
  proof (cases "is_initial U ptk")
    case True
    then obtain c where "extract_initial ptk = Inr [c]"
      using extract_initial_of_initial by blast
    with True False show ?thesis by (simp add: initial_bonus_step_def Let_def)
  next
    case False
    with \<open>\<not> is_initial U atk\<close> show ?thesis by (simp add: initial_bonus_step_def)
  qed
qed

lemma initial_bonus_inner_returns:
  "\<exists>b'. initial_bonus_inner U ptk atks b = Inr b' \<and> b \<le> b'"
proof (induction atks arbitrary: b)
  case Nil
  then show ?case by simp
next
  case (Cons atk atks)
  from initial_bonus_step_returns [of U ptk atk b] obtain b1 where
    b1: "initial_bonus_step U ptk atk b = Inr b1" "b \<le> b1" by blast
  from Cons.IH [of b1] obtain b2 where
    "initial_bonus_inner U ptk atks b1 = Inr b2" "b1 \<le> b2" by blast
  with b1 show ?case by simp
qed

lemma initial_bonus_outer_returns:
  "\<exists>b'. initial_bonus_outer U ptks atks b = Inr b' \<and> b \<le> b'"
proof (induction ptks arbitrary: b)
  case Nil
  then show ?case by simp
next
  case (Cons ptk ptks)
  from initial_bonus_inner_returns [of U ptk atks b] obtain b1 where
    b1: "initial_bonus_inner U ptk atks b = Inr b1" "b \<le> b1" by blast
  from Cons.IH [of b1] obtain b2 where
    "initial_bonus_outer U ptks atks b1 = Inr b2" "b1 \<le> b2" by blast
  with b1 show ?case by simp
qed

lemma token_set_score_range:
  assumes "rapidfuzz_in_range L"
  shows "\<exists>s. calculate_token_set_score_optimized U L prof_tokens author_tokens = Inr s \<and>
             0 \<le> s \<and> s \<le> 100"
proof -
  from initial_bonus_outer_returns [of U prof_tokens author_tokens 0] obtain b where
    b: "initial_bonus_outer U prof_tokens author_tokens 0 = Inr b" "0 \<le> b" by blast
  let ?t = "token_set_ratio L
      (py_join [32] (map (py_upper U) (filter (py_isalpha U) prof_tokens)))
      (py_join [32] (map (py_upper U) (filter (py_isalpha U) author_tokens)))"
  from assms have "0 \<le> ?t" by (simp add: rapidfuzz_in_range_def)
  with b have "0 \<le> min 100 (?t + b)" "min 100 (?t + b) \<le> 100" by simp_all
  with b show ?thesis by (simp add: calculate_token_set_score_optimized_def Let_def)
qed

lemma first_name_score_range:
  assumes "rapidfuzz_in_range L"
  shows "\<exists>s. calculate_first_name_score_optimized U L prof_nome author_first = Inr s \<and>
             0 \<le> s \<and> s \<le> 100"
proof -
  define pn where "pn = (if prof_nome \<noteq> [] then py_strip U prof_nome else [])"
  define af where "af = (if author_first \<noteq> [] then py_strip U author_first else [])"
  let ?j = "JaroWinkler_similarity L (py_upper U pn) (py_upper U af)"
  from assms have j: "0 \<le> ?j" "?j \<le> 1" by (simp_all add: rapidfuzz_in_range_def)
  then have j100: "0 \<le> ?j * 100" "?j * 100 \<le> 100" by simp_all
  show ?thesis
  proof (cases "is_initial U af")
    case True
    then obtain c where "extract_initial af = Inr [c]"
      using extract_initial_of_initial by blast
    with True show ?thesis
      by (simp add: calculate_first_name_score_optimized_def Let_def pn_def af_def)
  next
    case af: False
    show ?thesis
    proof (cases "is_initial U pn")
      case True
      then obtain c where "extract_initial pn = Inr [c]"
        using extract_initial_of_initial by blast
      with True af show ?thesis
        by (simp add: calculate_first_name_score_optimized_def Let_def pn_def af_def)
    next
      case False
      from j100 have "0 \<le> min 100 (?j * 100 + 10)" "min 100 (?j * 100 + 10) \<le> 100" by simp_all
      with False af j100 show ?thesis
        unfolding calculate_first_name_score_optimized_def Let_def pn_def [symmetric] af_def [symmetric]
        by simp
    qed
  qed
qed

lemma combine_scores_range:
  assumes "0 \<le> c" "c \<le> 100" "0 \<le> n" "n \<le> 100"
  shows "0 \<le> combine_scores c n \<and> combine_scores c n \<le> 100"
  using assms by (auto simp: combine_scores_def Let_def min_def)

section \<open>The reference model of rapidfuzz is in range\<close>

lemma count_flag_update:
  "j < length xs \<Longrightarrow> \<not> xs ! j \<Longrightarrow>
     length (filter (\<lambda>b. b) (xs[j := True])) = Suc (length (filter (\<lambda>b. b) xs))"
proof (induction xs arbitrary: j)
  case Nil
  then show ?case by simp
next
  case (Cons x xs)
  then show ?case by (cases j) auto
qed

lemma find_SomeD: "find P xs = Some x \<Longrightarrow> P x \<and> x \<in> set xs"
  by (induction xs) (auto split: if_splits)

lemma jaro_flags_count:
  "length tf = length t \<Longrightarrow> jaro_flags bound p t i tf = (pf, tf') \<Longrightarrow>
     length pf = length p \<and> length tf' = length t \<and>
     length (filter (\<lambda>b. b) tf') = length (filter (\<lambda>b. b) pf) + length (filter (\<lambda>b. b) tf)"
proof (induction p arbitrary: i tf pf tf')
  case Nil
  then show ?case by simp
next
  case (Cons c p)
  let ?range = "[i - bound ..< min (i + bound + 1) (length t)]"
  show ?case
  proof (cases "find (\<lambda>j. \<not> tf ! j \<and> t ! j = c) ?range")
    case None
    obtain pf1 tf1 where r: "jaro_flags bound p t (i + 1) tf = (pf1, tf1)"
      by (cases "jaro_flags bound p t (i + 1) tf")
    from Cons.IH [OF Cons.prems(1) r] Cons.prems(2) None r show ?thesis by auto
  next
    case (Some j)
    from find_SomeD [OF this] have "j \<in> set ?range" "\<not> tf ! j"
      by simp_all
    then have j: "j < length tf" "\<not> tf ! j" using Cons.prems(1) by auto
    obtain pf1 tf1 where r: "jaro_flags bound p t (i + 1) (tf[j := True]) = (pf1, tf1)"
      by (cases "jaro_flags bound p t (i + 1) (tf[j := True])")
    have len: "length (tf[j := True]) = length t" using Cons.prems(1) by simp
    from Cons.IH [OF len r] count_flag_update [OF j] Cons.prems(2) Some r show ?thesis by auto
  qed
qed

lemma length_flagged:
  "length s = length flags \<Longrightarrow> length (flagged s flags) = length (filter (\<lambda>b. b) flags)"
  unfolding flagged_def by (induction s flags rule: list_induct2) auto

lemma length_filter_id_le: "length (filter (\<lambda>b. b) xs) \<le> length xs"
  by simp

lemma mean3_range:
  fixes x y z :: rat
  assumes "0 \<le> x" "x \<le> 1" "0 \<le> y" "y \<le> 1" "0 \<le> z" "z \<le> 1"
  shows "0 \<le> (x + y + z) / 3 \<and> (x + y + z) / 3 \<le> 1"
  using assms by simp

lemma jaro_similarity_range: "0 \<le> jaro_similarity p t \<and> jaro_similarity p t \<le> 1"
proof (cases "p = [] \<and> t = []")
  case True
  then show ?thesis by (simp add: jaro_similarity_def)
next
  case False
  define bound where "bound = max (length p) (length t) div 2 - 1"
  obtain pf tf where r: "jaro_flags bound p t 0 (replicate (length t) False) = (pf, tf)"
    by (cases "jaro_flags bound p t 0 (replicate (length t) False)")
  have "length (replicate (length t) False) = length t" by simp
  from jaro_flags_count [OF this r]
  have lp: "length pf = length p" and lt: "length tf = length t"
    and cnt: "length (filter (\<lambda>b. b) tf) = length (filter (\<lambda>b. b) pf)"
    by auto
  define m where "m = length (flagged p pf)"
  define tr where "tr = length (filter (\<lambda>(a, b). a \<noteq> b) (zip (flagged p pf) (flagged t tf))) div 2"
  have m_p: "m \<le> length p"
    unfolding m_def using length_flagged [of p pf] lp length_filter_id_le [of pf] by simp
  have m_t: "m \<le> length t"
    unfolding m_def using length_flagged [of p pf] lp cnt lt length_filter_id_le [of tf] by simp
  have "length (filter (\<lambda>(a, b). a \<noteq> b) (zip (flagged p pf) (flagged t tf)))
          \<le> length (zip (flagged p pf) (flagged t tf))"
    by (rule length_filter_le)
  then have "length (filter (\<lambda>(a, b). a \<noteq> b) (zip (flagged p pf) (flagged t tf))) \<le> m"
    unfolding m_def by simp
  then have tr_m: "tr \<le> m" unfolding tr_def by linarith
  have eq: "jaro_similarity p t =
      (if m = 0 then 0
       else (of_nat m / of_nat (length p) + of_nat m / of_nat (length t) +
             (of_nat m - of_nat tr) / of_nat m) / 3)"
    unfolding jaro_similarity_def if_not_P [OF False] Let_def bound_def [symmetric] r m_def tr_def
    by simp
  show ?thesis
  proof (cases "m = 0")
    case True
    with eq show ?thesis by simp
  next
    case pos: False
    then have lpos: "0 < length p" "0 < length t" using m_p m_t by auto
    have a: "0 \<le> (of_nat m :: rat) / of_nat (length p)" "(of_nat m :: rat) / of_nat (length p) \<le> 1"
      using m_p lpos by (simp_all add: divide_le_eq_1)
    have b: "0 \<le> (of_nat m :: rat) / of_nat (length t)" "(of_nat m :: rat) / of_nat (length t) \<le> 1"
      using m_t lpos by (simp_all add: divide_le_eq_1)
    have c0: "0 \<le> ((of_nat m :: rat) - of_nat tr) / of_nat m"
      using tr_m pos by simp
    have c1: "((of_nat m :: rat) - of_nat tr) / of_nat m \<le> 1"
      using pos by (simp add: divide_le_eq_1)
    from eq pos have e: "jaro_similarity p t =
        (of_nat m / of_nat (length p) + of_nat m / of_nat (length t) +
         (of_nat m - of_nat tr) / of_nat m) / 3"
      by (simp only: if_False)
    show ?thesis unfolding e by (rule mean3_range [OF a b c0 c1])
  qed
qed

lemma jaro_winkler_similarity_range:
  "0 \<le> jaro_winkler_similarity p t \<and> jaro_winkler_similarity p t \<le> 1"
proof -
  let ?s = "jaro_similarity p t"
  let ?k = "(of_nat (common_prefix_length (take 4 p) (take 4 t)) :: rat) * 0.1 * (1 - ?s)"
  from jaro_similarity_range [of p t] have s: "0 \<le> ?s" "?s \<le> 1" by simp_all
  then have "0 \<le> ?k" by simp
  with s have "0 \<le> min 1 (?s + ?k)" "min 1 (?s + ?k) \<le> 1" by simp_all
  with s show ?thesis by (simp add: jaro_winkler_similarity_def Let_def)
qed

lemma norm_distance_range:
  "d \<le> lensum \<Longrightarrow> 0 \<le> norm_distance d lensum \<and> norm_distance d lensum \<le> 100"
proof (cases "lensum = 0")
  case True
  then show ?thesis by (simp add: norm_distance_def)
next
  case False
  assume "d \<le> lensum"
  with False have "(of_nat d :: rat) / of_nat lensum \<le> 1" "0 \<le> (of_nat d :: rat) / of_nat lensum"
    by (simp_all add: divide_le_eq_1)
  then have "100 * ((of_nat d :: rat) / of_nat lensum) \<le> 100"
    "0 \<le> 100 * ((of_nat d :: rat) / of_nat lensum)" by simp_all
  with False show ?thesis by (simp add: norm_distance_def)
qed

lemma indel_distance_le: "indel_distance p t \<le> length p + length t"
  by (simp add: indel_distance_def)

lemma ref_token_set_ratio_range:
  "0 \<le> ref_token_set_ratio U s1 s2 \<and> ref_token_set_ratio U s1 s2 \<le> 100"
proof -
  define ta where "ta = remdups (py_split U s1)"
  define tb where "tb = remdups (py_split U s2)"
  define sect where "sect = filter (\<lambda>x. x \<in> set tb) ta"
  define dab where "dab = py_join [32] (sort (filter (\<lambda>x. x \<notin> set tb) ta))"
  define dba where "dba = py_join [32] (sort (filter (\<lambda>x. x \<notin> set ta) tb))"
  define sl where "sl = length (py_join [32] sect)"
  define sep where "sep = (if sl \<noteq> 0 then 1 else 0 :: nat)"
  have r1: "0 \<le> norm_distance (indel_distance dab dba)
               (sl + sep + length dab + (sl + sep + length dba)) \<and>
            norm_distance (indel_distance dab dba)
               (sl + sep + length dab + (sl + sep + length dba)) \<le> 100"
    by (rule norm_distance_range) (use indel_distance_le [of dab dba] in simp)
  have r2: "0 \<le> norm_distance (sep + length dab) (sl + (sl + sep + length dab)) \<and>
            norm_distance (sep + length dab) (sl + (sl + sep + length dab)) \<le> 100"
    by (rule norm_distance_range) simp
  have r3: "0 \<le> norm_distance (sep + length dba) (sl + (sl + sep + length dba)) \<and>
            norm_distance (sep + length dba) (sl + (sl + sep + length dba)) \<le> 100"
    by (rule norm_distance_range) simp
  from r1 r2 r3 show ?thesis
    unfolding ref_token_set_ratio_def Let_def ta_def [symmetric] tb_def [symmetric]
      sect_def [symmetric] dab_def [symmetric] dba_def [symmetric] sl_def [symmetric]
      sep_def [symmetric]
    by auto
qed

lemma rapidfuzz_ref_in_range: "rapidfuzz_in_range rapidfuzz_ref"
  unfolding rapidfuzz_in_range_def rapidfuzz_ref_def
  using jaro_winkler_similarity_range ref_token_set_ratio_range by simp

section \<open>Evaluation on the sample tables\<close>

lemmas ucd_sample_simps =
  ucd_sample_def sample_ccc_def ascii_upper_def ascii_lower_def ascii_letter_def

lemmas py_simps =
  py_split_def py_strip_def py_isupper_def py_isalpha_def py_upper_def py_lower_def
  startswith_def str_simps

lemmas normalize_simps =
  normalize_name_def sub_dashes_def sub_apostrophes_def sub_commas_def

lemma verdi_normalized:
  "normalize_name ucd_sample (str ''Giuseppe VERDI'') = str ''Giuseppe VERDI''"
  by (simp add: normalize_simps ucd_sample_simps py_simps)

lemma verdi_tokens:
  "py_split ucd_sample (str ''Giuseppe VERDI'') = [str ''Giuseppe'', str ''VERDI'']"
  by (simp add: ucd_sample_simps py_simps)

lemma verdi_parsed:
  "parse_professor_name ucd_sample [str ''Giuseppe'', str ''VERDI''] (str ''Giuseppe VERDI'') =
     (str ''Giuseppe'', str ''VERDI'')"
  by (simp add: parse_professor_name_def verdi_tokens Let_def)
     (simp add: ucd_sample_simps py_simps)

lemma g_verdi_normalized:
  "normalize_name ucd_sample (str ''G. Verdi'') = str ''G. Verdi''"
  by (simp add: normalize_simps ucd_sample_simps py_simps)

lemma g_verdi_tokens:
  "py_split ucd_sample (str ''G. Verdi'') = [str ''G.'', str ''Verdi'']"
  by (simp add: ucd_sample_simps py_simps)

lemma g_is_initial: "is_initial ucd_sample (str ''G.'')"
  by (simp add: is_initial_def match_initial_pattern_def ucd_sample_simps py_simps)

lemma g_extract: "extract_initial (str ''G.'') = Inr (str ''G'')"
  by (simp add: extract_initial_def ascii_letter_def str_simps)

lemma g_verdi_parsed:
  "parse_author_name ucd_sample [str ''G.'', str ''Verdi''] =
     Inr (str ''G'', CognomeStr (str ''Verdi''))"
  by (simp add: parse_author_name_def g_is_initial g_extract)

lemma g_first_name:
  "calculate_first_name_score_optimized ucd_sample L (str ''Giuseppe'') (str ''G'') = Inr 95"
proof -
  have s1: "py_strip ucd_sample (str ''Giuseppe'') = str ''Giuseppe''"
    by (simp add: ucd_sample_simps py_simps)
  have s2: "py_strip ucd_sample (str ''G'') = str ''G''"
    by (simp add: ucd_sample_simps py_simps)
  have i: "is_initial ucd_sample (str ''G'')"
    by (simp add: is_initial_def match_initial_pattern_def ucd_sample_simps py_simps)
  have x: "extract_initial (str ''G'') = Inr (str ''G'')"
    by (simp add: extract_initial_def ascii_letter_def str_simps)
  have u: "py_upper ucd_sample [str ''Giuseppe'' ! 0] = py_upper ucd_sample (str ''G'')"
    by (simp add: ucd_sample_simps py_simps)
  have n: "str ''Giuseppe'' \<noteq> []" "str ''G'' \<noteq> []" by (simp_all add: str_simps)
  show ?thesis
    unfolding calculate_first_name_score_optimized_def Let_def
    by (simp only: n if_True s1 s2 i x u sum.case simp_thms)
qed

lemma verdi_upper:
  "py_upper ucd_sample (str ''VERDI'') = str ''VERDI''"
  "py_upper ucd_sample (str ''Verdi'') = str ''VERDI''"
  by (simp_all add: ucd_sample_simps py_simps)

lemma verdi_preprocessed:
  "preprocess_professor ucd_sample prof_verdi =
     \<lparr> p_id = Some 1, p_nome_completo = Some (str ''Giuseppe VERDI''),
       p_nome_completo_normalized = Some (str ''Giuseppe VERDI''),
       p_nome_completo_tokens = Some [str ''Giuseppe'', str ''VERDI''],
       p_nome_completo_original = Some (str ''Giuseppe VERDI'') \<rparr>"
proof -
  have n: "str ''Giuseppe VERDI'' \<noteq> []" by (simp add: str_simps)
  show ?thesis
    unfolding preprocess_professor_def Let_def
    by (simp add: prof_verdi_def n verdi_normalized verdi_tokens)
qed

lemma g_verdi_preprocessed:
  "preprocess_author ucd_sample author_verdi =
     \<lparr> a_display_name = Some (str ''G. Verdi''),
       a_orcid = Some (str ''0000-0000-0000-0001''),
       a_display_name_normalized = Some (str ''G. Verdi''),
       a_display_name_tokens = Some [str ''G.'', str ''Verdi''] \<rparr>"
proof -
  have n: "str ''G. Verdi'' \<noteq> []" by (simp add: str_simps)
  show ?thesis
    unfolding preprocess_author_def Let_def
    by (simp add: author_verdi_def n g_verdi_normalized g_verdi_tokens)
qed

lemma combine_100_95: "combine_scores 100 95 = 197 / 2"
  by (simp add: combine_scores_def Let_def)

lemma verdi_score:
  assumes "JaroWinkler_similarity L (str ''VERDI'') (str ''VERDI'') = 1"
  shows "calculate_name_score_optimized ucd_sample L
           (preprocess_professor ucd_sample prof_verdi)
           (preprocess_author ucd_sample author_verdi) = Inr (197 / 2)"
proof -
  have n: "str ''Giuseppe VERDI'' \<noteq> []" "str ''G. Verdi'' \<noteq> []"
    "str ''VERDI'' \<noteq> []" "str ''Verdi'' \<noteq> []"
    by (simp_all add: str_simps)
  show ?thesis
    unfolding calculate_name_score_optimized_def Let_def verdi_preprocessed g_verdi_preprocessed
    by (simp add: n verdi_parsed g_verdi_parsed verdi_upper assms g_first_name combine_100_95)
qed

lemma jw_ref_verdi: "JaroWinkler_similarity rapidfuzz_ref (str ''VERDI'') (str ''VERDI'') = 1"
  by (simp add: rapidfuzz_ref_def jaro_winkler_similarity_def jaro_similarity_def flagged_def
      Let_def str_simps)

text \<open>
  Claim C1.  For every professor record and every author record (preprocessed or not), and
  whatever the Unicode tables, \<open>calculate_name_score_optimized\<close> returns a score (it raises
  no exception) and the score lies between 0 and 100, in the structured branch, in the
  token-set branch and in the whole-string Jaro-Winkler branch alike, provided the two library
  functions stay in their documented ranges.
\<close>

theorem calculate_name_score_optimized_range:
  assumes "rapidfuzz_in_range L"
  shows "\<exists>s. calculate_name_score_optimized U L prof_data author_data = Inr s \<and>
             0 \<le> s \<and> s \<le> 100"
proof -
  define pc where "pc = (case p_nome_completo_normalized prof_data of None \<Rightarrow> [] | Some n \<Rightarrow> n)"
  define ac where "ac = (case a_display_name_normalized author_data of None \<Rightarrow> [] | Some n \<Rightarrow> n)"
  define ptk where "ptk = (case p_nome_completo_tokens prof_data of None \<Rightarrow> [] | Some t \<Rightarrow> t)"
  define atk where "atk = (case a_display_name_tokens author_data of None \<Rightarrow> [] | Some t \<Rightarrow> t)"
  define orig where "orig = (case p_nome_completo_original prof_data of None \<Rightarrow> pc | Some n \<Rightarrow> n)"
  note defs = pc_def [symmetric] ac_def [symmetric] ptk_def [symmetric] atk_def [symmetric]
    orig_def [symmetric]
  have jw: "0 \<le> JaroWinkler_similarity L a b * 100 \<and> JaroWinkler_similarity L a b * 100 \<le> 100"
    for a b
    using assms by (simp add: rapidfuzz_in_range_def)
  show ?thesis
  proof (cases "pc = [] \<or> ac = []")
    case True
    then show ?thesis
      unfolding calculate_name_score_optimized_def Let_def defs by auto
  next
    case nonempty: False
    show ?thesis
    proof (cases "length ptk < 2 \<or> length atk < 2")
      case True
      with nonempty jw [of pc ac] show ?thesis
        unfolding calculate_name_score_optimized_def Let_def defs by auto
    next
      case long: False
      obtain pnome pcog where pp: "parse_professor_name U ptk orig = (pnome, pcog)"
        by (cases "parse_professor_name U ptk orig")
      from parse_author_name_returns [of U atk] obtain an acog where
        pa: "parse_author_name U atk = Inr (an, acog)" by (metis surj_pair)
      show ?thesis
      proof (cases acog)
        case (CognomeList ts)
        from token_set_score_range [OF assms, of U ptk atk] nonempty long pp pa CognomeList
        show ?thesis
          unfolding calculate_name_score_optimized_def Let_def defs by auto
      next
        case (CognomeStr cs)
        let ?c = "JaroWinkler_similarity L (if pcog \<noteq> [] then py_upper U pcog else [])
                    (if cs \<noteq> [] then py_upper U cs else []) * 100"
        from first_name_score_range [OF assms, of U pnome an] obtain n where
          n: "calculate_first_name_score_optimized U L pnome an = Inr n" "0 \<le> n" "n \<le> 100"
          by blast
        from jw have c: "0 \<le> ?c" "?c \<le> 100" by blast+
        from combine_scores_range [OF c n(2,3)] nonempty long pp pa CognomeStr n(1)
        show ?thesis
          unfolding calculate_name_score_optimized_def Let_def defs by auto
      qed
    qed
  qed
qed

theorem calculate_name_score_optimized_range_witness:
  "rapidfuzz_in_range rapidfuzz_ref \<and>
   calculate_name_score_optimized ucd_sample rapidfuzz_ref
     (preprocess_professor ucd_sample prof_verdi)
     (preprocess_author ucd_sample author_verdi) = Inr (197 / 2) \<and>
   (0 :: rat) \<le> 197 / 2 \<and> (197 / 2 :: rat) \<le> 100"
  using calculate_name_score_optimized_range [OF rapidfuzz_ref_in_range, of ucd_sample
      "preprocess_professor ucd_sample prof_verdi" "preprocess_author ucd_sample author_verdi"]
    rapidfuzz_ref_in_range verdi_score [OF jw_ref_verdi]
  by simp

section \<open>The scenario of match\_test.py\<close>

lemma verdi_candidates:
  assumes "JaroWinkler_similarity L (str ''VERDI'') (str ''VERDI'') = 1"
  shows "find_best_matches_optimized ucd_sample L
           [preprocess_professor ucd_sample prof_verdi]
           [(str ''A123'', preprocess_author ucd_sample author_verdi)] 40 =
         Inr [(197 / 2, preprocess_professor ucd_sample prof_verdi, str ''A123'', ''display_name'')]"
  by (simp add: find_best_matches_optimized_def verdi_score [OF assms] sort_matches_def)

lemma resolve_single:
  assumes "authors_dict author_id = Some author_data"
  shows "resolve_matches [(score, prof, author_id, match_type)] authors_dict thr =
           (if score < thr then Inr []
            else Inr [make_match_result score prof author_id author_data])"
  by (simp add: resolve_matches_def assms Let_def)

text \<open>
  Claim C7, as amended.  For the registry name \<open>Giuseppe VERDI\<close> and the candidate name
  \<open>G. Verdi\<close> the parsers yield family \<open>VERDI\<close>, given \<open>Giuseppe\<close> and family \<open>Verdi\<close>,
  given \<open>G\<close> (the initial without its period); the family score is 100 when the library
  gives equal strings the similarity 1; the given-name branch finds the initial and returns 95;
  the bonus does not apply, since 95 is not greater than 95, so the final score is
  \<open>100 * 0.7 + 95 * 0.3 = 98.5\<close>; the match is accepted at every threshold up to 98.5.
\<close>

theorem verdi_scenario:
  assumes "JaroWinkler_similarity L (str ''VERDI'') (str ''VERDI'') = 1"
    and "thr \<le> 197 / 2"
  shows "parse_professor_name ucd_sample [str ''Giuseppe'', str ''VERDI''] (str ''Giuseppe VERDI'') =
           (str ''Giuseppe'', str ''VERDI'') \<and>
         parse_author_name ucd_sample [str ''G.'', str ''Verdi''] =
           Inr (str ''G'', CognomeStr (str ''Verdi'')) \<and>
         JaroWinkler_similarity L (py_upper ucd_sample (str ''VERDI''))
           (py_upper ucd_sample (str ''Verdi'')) * 100 = 100 \<and>
         calculate_first_name_score_optimized ucd_sample L (str ''Giuseppe'') (str ''G'') = Inr 95 \<and>
         combine_scores 100 95 = 100 * 0.7 + 95 * 0.3 \<and>
         calculate_name_score_optimized ucd_sample L
           (preprocess_professor ucd_sample prof_verdi)
           (preprocess_author ucd_sample author_verdi) = Inr (197 / 2) \<and>
         resolve_matches
           [(197 / 2, preprocess_professor ucd_sample prof_verdi, str ''A123'', ''display_name'')]
           (map_of [(str ''A123'', preprocess_author ucd_sample author_verdi)]) thr =
           Inr [make_match_result (197 / 2) (preprocess_professor ucd_sample prof_verdi)
                  (str ''A123'') (preprocess_author ucd_sample author_verdi)]"
proof -
  have r: "resolve_matches
           [(197 / 2, preprocess_professor ucd_sample prof_verdi, str ''A123'', ''display_name'')]
           (map_of [(str ''A123'', preprocess_author ucd_sample author_verdi)]) thr =
           Inr [make_match_result (197 / 2) (preprocess_professor ucd_sample prof_verdi)
                  (str ''A123'') (preprocess_author ucd_sample author_verdi)]"
    using assms(2) by (subst resolve_single) simp_all
  have c: "combine_scores 100 95 = 100 * 0.7 + 95 * 0.3"
    by (simp add: combine_100_95)
  from verdi_parsed g_verdi_parsed g_first_name [of L] verdi_score [OF assms(1)] assms(1) r c
  show ?thesis by (simp only: verdi_upper) simp
qed

theorem verdi_scenario_witness:
  "JaroWinkler_similarity rapidfuzz_ref (str ''VERDI'') (str ''VERDI'') = 1 \<and>
   (75 :: rat) \<le> 197 / 2 \<and>
   calculate_name_score_optimized ucd_sample rapidfuzz_ref
     (preprocess_professor ucd_sample prof_verdi)
     (preprocess_author ucd_sample author_verdi) = Inr (197 / 2) \<and>
   resolve_matches
     [(197 / 2, preprocess_professor ucd_sample prof_verdi, str ''A123'', ''display_name'')]
     (map_of [(str ''A123'', preprocess_author ucd_sample author_verdi)]) 75 =
     Inr [make_match_result (197 / 2) (preprocess_professor ucd_sample prof_verdi)
            (str ''A123'') (preprocess_author ucd_sample author_verdi)]"
proof -
  have t: "(75 :: rat) \<le> 197 / 2" by simp
  from verdi_scenario [OF jw_ref_verdi t] jw_ref_verdi t show ?thesis by blast
qed

text \<open>
  Claim C7 as stated fails: the final score of the scenario is not 100.
\<close>

theorem verdi_score_not_100:
  "calculate_name_score_optimized ucd_sample rapidfuzz_ref
     (preprocess_professor ucd_sample prof_verdi)
     (preprocess_author ucd_sample author_verdi) \<noteq> Inr 100"
  by (simp add: verdi_score [OF jw_ref_verdi])

section \<open>The scorer is not symmetric\<close>

lemma bo_li_normalized:
  "normalize_name ucd_sample (str ''Bo LI'') = str ''Bo LI''"
  "normalize_name ucd_sample (str ''B. Li'') = str ''B. Li''"
  "normalize_name_v3 ucd_sample (str ''Bo LI'') = str ''Bo LI''"
  "normalize_name_v3 ucd_sample (str ''B. Li'') = str ''B. Li''"
  by (simp_all add: normalize_simps normalize_name_v3_def ucd_sample_simps py_simps)

lemma bo_li_tokens:
  "py_split ucd_sample (str ''Bo LI'') = [str ''Bo'', str ''LI'']"
  "py_split ucd_sample (str ''B. Li'') = [str ''B.'', str ''Li'']"
  by (simp_all add: ucd_sample_simps py_simps)

lemma bo_li_isupper:
  "\<not> py_isupper ucd_sample (str ''Bo'')" "py_isupper ucd_sample (str ''LI'')"
  "py_isupper ucd_sample (str ''B.'')" "\<not> py_isupper ucd_sample (str ''Li'')"
  by (simp_all add: ucd_sample_simps py_simps)

lemma bo_li_parsed_professor:
  "parse_professor_name ucd_sample toks (str ''Bo LI'') = (str ''Bo'', str ''LI'')"
  "parse_professor_name ucd_sample toks (str ''B. Li'') = (str ''Li'', str ''B.'')"
  "parse_professor_name_v3 ucd_sample [str ''Bo'', str ''LI''] = (str ''Bo'', str ''LI'')"
  "parse_professor_name_v3 ucd_sample [str ''B.'', str ''Li''] = (str ''Li'', str ''B.'')"
  by (simp_all add: parse_professor_name_def parse_professor_name_v3_def bo_li_tokens
      bo_li_isupper Let_def)
     (simp_all add: str_simps)

lemma bo_li_initials:
  "is_initial ucd_sample (str ''B.'')" "is_initial ucd_sample (str ''Bo'')"
  "is_initial ucd_sample (str ''B'')"
  "extract_initial (str ''B.'') = Inr (str ''B'')" "extract_initial (str ''Bo'') = Inr (str ''B'')"
  "extract_initial (str ''B'') = Inr (str ''B'')"
  by (simp_all add: is_initial_def match_initial_pattern_def extract_initial_def
      ucd_sample_simps py_simps)

lemma bo_li_parsed_author:
  "parse_author_name ucd_sample [str ''B.'', str ''Li''] = Inr (str ''B'', CognomeStr (str ''Li''))"
  "parse_author_name ucd_sample [str ''Bo'', str ''LI''] = Inr (str ''B'', CognomeStr (str ''LI''))"
  "parse_author_name_v3 ucd_sample [str ''B.'', str ''Li''] = Inr (str ''B'', CognomeStr (str ''Li''))"
  "parse_author_name_v3 ucd_sample [str ''Bo'', str ''LI''] = Inr (str ''B'', CognomeStr (str ''LI''))"
  by (simp_all add: parse_author_name_def parse_author_name_v3_def bo_li_initials)

lemma bo_li_strip:
  "py_strip ucd_sample (str ''Bo'') = str ''Bo''" "py_strip ucd_sample (str ''Li'') = str ''Li''"
  "py_strip ucd_sample (str ''B'') = str ''B''"
  by (simp_all add: ucd_sample_simps py_simps)

lemma bo_li_first_letters:
  "py_upper ucd_sample [str ''Bo'' ! 0] = py_upper ucd_sample (str ''B'')"
  "py_upper ucd_sample [str ''Li'' ! 0] \<noteq> py_upper ucd_sample (str ''B'')"
  by (simp_all add: ucd_sample_simps py_simps)

lemma bo_li_nonempty:
  "str ''Bo'' \<noteq> []" "str ''Li'' \<noteq> []" "str ''B'' \<noteq> []" "str ''LI'' \<noteq> []" "str ''B.'' \<noteq> []"
  "str ''Bo LI'' \<noteq> []" "str ''B. Li'' \<noteq> []"
  by (simp_all add: str_simps)

lemma bo_li_first_name:
  "calculate_first_name_score_optimized ucd_sample L (str ''Bo'') (str ''B'') = Inr 95"
  "calculate_first_name_score_optimized ucd_sample L (str ''Li'') (str ''B'') = Inr 10"
  "calculate_first_name_score ucd_sample L (str ''Bo'') (str ''B'') = Inr 95"
  "calculate_first_name_score ucd_sample L (str ''Li'') (str ''B'') = Inr 10"
  unfolding calculate_first_name_score_optimized_def calculate_first_name_score_def Let_def
  by (simp_all only: bo_li_nonempty if_True bo_li_strip bo_li_initials bo_li_first_letters
      sum.case simp_thms if_False)

lemma bo_li_upper:
  "py_upper ucd_sample (str ''LI'') = str ''LI''" "py_upper ucd_sample (str ''Li'') = str ''LI''"
  "py_upper ucd_sample (str ''B.'') = str ''B.''"
  "normalize_name_v3 ucd_sample (str ''LI'') = str ''LI''"
  "normalize_name_v3 ucd_sample (str ''Li'') = str ''Li''"
  "normalize_name_v3 ucd_sample (str ''B.'') = str ''B.''"
  by (simp_all add: normalize_name_v3_def normalize_simps ucd_sample_simps py_simps)

lemma bo_li_score:
  assumes "JaroWinkler_similarity L (str ''LI'') (str ''LI'') = 1"
  shows "debug_name_score ucd_sample L (str ''Bo LI'') (str ''B. Li'') = Inr (197 / 2)"
    and "calculate_name_score ucd_sample L (str ''Bo LI'') (str ''B. Li'') = Inr (197 / 2)"
  unfolding debug_name_score_def calculate_name_score_optimized_def calculate_name_score_def Let_def
  by (simp_all add: bo_li_nonempty bo_li_normalized bo_li_tokens bo_li_parsed_professor
      bo_li_parsed_author bo_li_upper bo_li_first_name assms combine_100_95)

lemma li_bo_score:
  "debug_name_score ucd_sample L (str ''B. Li'') (str ''Bo LI'') =
     Inr (combine_scores (JaroWinkler_similarity L (str ''B.'') (str ''LI'') * 100) 10)"
  "calculate_name_score ucd_sample L (str ''B. Li'') (str ''Bo LI'') =
     Inr (combine_scores (JaroWinkler_similarity L (str ''B.'') (str ''LI'') * 100) 10)"
  unfolding debug_name_score_def calculate_name_score_optimized_def calculate_name_score_def Let_def
  by (simp_all add: bo_li_nonempty bo_li_normalized bo_li_tokens bo_li_parsed_professor
      bo_li_parsed_author bo_li_upper bo_li_first_name)

lemma combine_scores_low_given:
  assumes "0 \<le> c" "c \<le> 100"
  shows "combine_scores c 10 \<le> 73"
  using assms by (auto simp: combine_scores_def Let_def)

lemma jw_ref_li:
  "JaroWinkler_similarity rapidfuzz_ref (str ''LI'') (str ''LI'') = 1"
  "JaroWinkler_similarity rapidfuzz_ref (str ''B.'') (str ''LI'') = 0"
  by (simp_all add: rapidfuzz_ref_def jaro_winkler_similarity_def jaro_similarity_def flagged_def
      Let_def str_simps)

text \<open>
  Claim C4, as amended.  The pairwise scorer is not symmetric.  For the names \<open>Bo LI\<close> and
  \<open>B. Li\<close>, with a library in its documented range that gives equal strings the similarity 1,
  the score of the pair differs from the score of the swapped pair (98.5 against at most 73):
  the registry parser takes the upper-case token \<open>B.\<close> for the family name, the candidate
  parser takes \<open>Bo\<close> for an initial.  This holds of \<open>calculate_name_score\<close> of the earlier
  module and of \<open>calculate_name_score_optimized\<close> (through \<open>debug_name_score\<close>) alike.
\<close>

theorem name_score_asymmetric:
  assumes "rapidfuzz_in_range L"
    and "JaroWinkler_similarity L (str ''LI'') (str ''LI'') = 1"
  shows "debug_name_score ucd_sample L (str ''Bo LI'') (str ''B. Li'') = Inr (197 / 2) \<and>
         calculate_name_score ucd_sample L (str ''Bo LI'') (str ''B. Li'') = Inr (197 / 2) \<and>
         (\<exists>s. debug_name_score ucd_sample L (str ''B. Li'') (str ''Bo LI'') = Inr s \<and>
              calculate_name_score ucd_sample L (str ''B. Li'') (str ''Bo LI'') = Inr s \<and>
              s \<le> 73) \<and>
         debug_name_score ucd_sample L (str ''Bo LI'') (str ''B. Li'') \<noteq>
           debug_name_score ucd_sample L (str ''B. Li'') (str ''Bo LI'') \<and>
         calculate_name_score ucd_sample L (str ''Bo LI'') (str ''B. Li'') \<noteq>
           calculate_name_score ucd_sample L (str ''B. Li'') (str ''Bo LI'')"
proof -
  let ?c = "JaroWinkler_similarity L (str ''B.'') (str ''LI'') * 100"
  from assms(1) have "0 \<le> ?c" "?c \<le> 100" by (simp_all add: rapidfuzz_in_range_def)
  from combine_scores_low_given [OF this] have low: "combine_scores ?c 10 \<le> 73" .
  then have "combine_scores ?c 10 \<noteq> 197 / 2" by simp
  with low show ?thesis
    by (simp add: bo_li_score [OF assms(2)] li_bo_score)
qed

theorem name_score_asymmetric_witness:
  "rapidfuzz_in_range rapidfuzz_ref \<and>
   JaroWinkler_similarity rapidfuzz_ref (str ''LI'') (str ''LI'') = 1 \<and>
   debug_name_score ucd_sample rapidfuzz_ref (str ''Bo LI'') (str ''B. Li'') = Inr (197 / 2) \<and>
   debug_name_score ucd_sample rapidfuzz_ref (str ''B. Li'') (str ''Bo LI'') = Inr (3 / 2) \<and>
   calculate_name_score ucd_sample rapidfuzz_ref (str ''Bo LI'') (str ''B. Li'') = Inr (197 / 2) \<and>
   calculate_name_score ucd_sample rapidfuzz_ref (str ''B. Li'') (str ''Bo LI'') = Inr (3 / 2) \<and>
   debug_name_score ucd_sample rapidfuzz_ref (str ''Bo LI'') (str ''B. Li'') \<noteq>
     debug_name_score ucd_sample rapidfuzz_ref (str ''B. Li'') (str ''Bo LI'') \<and>
   calculate_name_score ucd_sample rapidfuzz_ref (str ''Bo LI'') (str ''B. Li'') \<noteq>
     calculate_name_score ucd_sample rapidfuzz_ref (str ''B. Li'') (str ''Bo LI'')"
proof -
  have v: "combine_scores 0 10 = 3 / 2"
    by (simp add: combine_scores_def Let_def)
  from name_score_asymmetric [OF rapidfuzz_ref_in_range jw_ref_li(1)]
    rapidfuzz_ref_in_range jw_ref_li(1) bo_li_score [OF jw_ref_li(1)]
    li_bo_score [of rapidfuzz_ref] v
  show ?thesis by (simp add: jw_ref_li(2))
qed

text \<open>
  Claim C4 as stated fails: neither scorer is symmetric.
\<close>

theorem name_score_symmetry_fails:
  "\<not> (\<forall>a b. calculate_name_score ucd_sample rapidfuzz_ref a b =
               calculate_name_score ucd_sample rapidfuzz_ref b a) \<and>
   \<not> (\<forall>a b. debug_name_score ucd_sample rapidfuzz_ref a b =
               debug_name_score ucd_sample rapidfuzz_ref b a)"
proof -
  have v: "combine_scores 0 10 = 3 / 2"
    by (simp add: combine_scores_def Let_def)
  have "calculate_name_score ucd_sample rapidfuzz_ref (str ''Bo LI'') (str ''B. Li'') \<noteq>
        calculate_name_score ucd_sample rapidfuzz_ref (str ''B. Li'') (str ''Bo LI'')"
    by (simp add: bo_li_score [OF jw_ref_li(1)] li_bo_score jw_ref_li(2) v)
  moreover
  have "debug_name_score ucd_sample rapidfuzz_ref (str ''Bo LI'') (str ''B. Li'') \<noteq>
        debug_name_score ucd_sample rapidfuzz_ref (str ''B. Li'') (str ''Bo LI'')"
    by (simp add: bo_li_score [OF jw_ref_li(1)] li_bo_score jw_ref_li(2) v)
  ultimately show ?thesis by blast
qed

section \<open>Candidate names of more than six tokens\<close>

lemma first_name_score_returns:
  "\<exists>s. calculate_first_name_score_optimized U L prof_nome author_first = Inr s"
proof -
  define pn where "pn = (if prof_nome \<noteq> [] then py_strip U prof_nome else [])"
  define af where "af = (if author_first \<noteq> [] then py_strip U author_first else [])"
  show ?thesis
  proof (cases "is_initial U af")
    case True
    then obtain c where "extract_initial af = Inr [c]"
      using extract_initial_of_initial by blast
    with True show ?thesis
      by (simp add: calculate_first_name_score_optimized_def Let_def pn_def af_def)
  next
    case af: False
    show ?thesis
    proof (cases "is_initial U pn")
      case True
      then obtain c where "extract_initial pn = Inr [c]"
        using extract_initial_of_initial by blast
      with True af show ?thesis
        by (simp add: calculate_first_name_score_optimized_def Let_def pn_def af_def)
    next
      case False
      with af show ?thesis
        unfolding calculate_first_name_score_optimized_def Let_def pn_def [symmetric] af_def [symmetric]
        by simp
    qed
  qed
qed

lemma parse_author_name_long:
  assumes "6 < length author_tokens"
  shows "parse_author_name U author_tokens = Inr ([], CognomeStr [])"
  using assms by (auto simp: parse_author_name_def)

lemma rossi_normalized:
  "normalize_name ucd_sample (str ''Mario ROSSI'') = str ''Mario ROSSI''"
  by (simp add: normalize_simps ucd_sample_simps py_simps)

lemma rossi_tokens:
  "py_split ucd_sample (str ''Mario ROSSI'') = [str ''Mario'', str ''ROSSI'']"
  by (simp add: ucd_sample_simps py_simps)

lemma rossi_long_normalized:
  "normalize_name ucd_sample (str ''Mario Rossi A B C D E'') = str ''Mario Rossi A B C D E''"
  by (simp add: normalize_simps ucd_sample_simps py_simps)

lemma rossi_long_tokens:
  "py_split ucd_sample (str ''Mario Rossi A B C D E'') =
     [str ''Mario'', str ''Rossi'', str ''A'', str ''B'', str ''C'', str ''D'', str ''E'']"
  by (simp add: ucd_sample_simps py_simps)

lemma rossi_parsed:
  "parse_professor_name ucd_sample toks (str ''Mario ROSSI'') = (str ''Mario'', str ''ROSSI'')"
  by (simp add: parse_professor_name_def rossi_tokens Let_def)
     (simp add: ucd_sample_simps py_simps)

lemma mario_preprocessed:
  "preprocess_professor ucd_sample
     \<lparr> p_id = Some 3, p_nome_completo = Some (str ''Mario ROSSI''),
       p_nome_completo_normalized = None, p_nome_completo_tokens = None,
       p_nome_completo_original = None \<rparr> = prof_mario"
proof -
  have n: "str ''Mario ROSSI'' \<noteq> []" by (simp add: str_simps)
  show ?thesis
    unfolding preprocess_professor_def Let_def prof_mario_def
    by (simp add: n rossi_normalized rossi_tokens)
qed

lemma long_preprocessed:
  "preprocess_author ucd_sample
     \<lparr> a_display_name = Some (str ''Mario Rossi A B C D E''), a_orcid = None,
       a_display_name_normalized = None, a_display_name_tokens = None \<rparr> = author_long"
proof -
  have n: "str ''Mario Rossi A B C D E'' \<noteq> []" by (simp add: str_simps)
  show ?thesis
    unfolding preprocess_author_def Let_def author_long_def
    by (simp add: n rossi_long_normalized rossi_long_tokens)
qed

lemma mario_first_name:
  "calculate_first_name_score_optimized ucd_sample rapidfuzz_ref (str ''Mario'') [] = Inr 0"
proof -
  have s: "py_strip ucd_sample (str ''Mario'') = str ''Mario''"
    by (simp add: ucd_sample_simps py_simps)
  have i: "\<not> is_initial ucd_sample (str ''Mario'')" "\<not> is_initial ucd_sample []"
    by (simp_all add: is_initial_def match_initial_pattern_def ucd_sample_simps py_simps)
  have u: "py_upper ucd_sample (str ''Mario'') = str ''MARIO''" "py_upper ucd_sample [] = []"
    by (simp_all add: ucd_sample_simps py_simps)
  have j: "JaroWinkler_similarity rapidfuzz_ref (str ''MARIO'') [] = 0"
    by (simp add: rapidfuzz_ref_def jaro_winkler_similarity_def jaro_similarity_def flagged_def
        Let_def str_simps)
  have a: "\<not> check_common_abbreviations ucd_sample (str ''Mario'') []"
    by (simp add: check_common_abbreviations_def abbreviations_def ucd_sample_simps py_simps)
  have n: "str ''Mario'' \<noteq> []" by (simp add: str_simps)
  show ?thesis
    unfolding calculate_first_name_score_optimized_def Let_def
    by (simp add: n s i u j a)
qed

lemma mario_long_score:
  "calculate_name_score_optimized ucd_sample rapidfuzz_ref prof_mario author_long = Inr 0"
proof -
  have l: "(6::nat) <
      length [str ''Mario'', str ''Rossi'', str ''A'', str ''B'', str ''C'', str ''D'', str ''E'']"
    by simp
  have n: "str ''Mario ROSSI'' \<noteq> []" "str ''Mario Rossi A B C D E'' \<noteq> []" "str ''ROSSI'' \<noteq> []"
    by (simp_all add: str_simps)
  have u: "py_upper ucd_sample (str ''ROSSI'') = str ''ROSSI''"
    by (simp_all add: ucd_sample_simps py_simps)
  have j: "JaroWinkler_similarity rapidfuzz_ref (str ''ROSSI'') [] = 0"
    by (simp add: rapidfuzz_ref_def jaro_winkler_similarity_def jaro_similarity_def flagged_def
        Let_def str_simps)
  have c: "combine_scores 0 0 = 0" by (simp add: combine_scores_def)
  show ?thesis
    unfolding calculate_name_score_optimized_def Let_def
    by (simp add: prof_mario_def author_long_def n rossi_parsed parse_author_name_long [OF l]
        u j mario_first_name c)
qed

lemma mario_long_token_set:
  "calculate_token_set_score_optimized ucd_sample rapidfuzz_ref
     [str ''Mario'', str ''ROSSI'']
     [str ''Mario'', str ''Rossi'', str ''A'', str ''B'', str ''C'', str ''D'', str ''E''] = Inr 100"
proof -
  let ?pt = "[str ''Mario'', str ''ROSSI'']"
  let ?at = "[str ''Mario'', str ''Rossi'', str ''A'', str ''B'', str ''C'', str ''D'', str ''E'']"
  have p: "py_join [32] (map (py_upper ucd_sample) (filter (py_isalpha ucd_sample) ?pt)) =
             str ''MARIO ROSSI''"
    by (simp add: ucd_sample_simps py_simps)
  have a: "py_join [32] (map (py_upper ucd_sample) (filter (py_isalpha ucd_sample) ?at)) =
             str ''MARIO ROSSI A B C D E''"
    by (simp add: ucd_sample_simps py_simps)
  have s1: "py_split ucd_sample (str ''MARIO ROSSI'') = [str ''MARIO'', str ''ROSSI'']"
    by (simp add: ucd_sample_simps py_simps)
  have s2: "py_split ucd_sample (str ''MARIO ROSSI A B C D E'') =
     [str ''MARIO'', str ''ROSSI'', str ''A'', str ''B'', str ''C'', str ''D'', str ''E'']"
    by (simp add: ucd_sample_simps py_simps)
  have r1: "remdups [str ''MARIO'', str ''ROSSI''] = [str ''MARIO'', str ''ROSSI'']"
    by (simp add: str_simps)
  have r2: "remdups [str ''MARIO'', str ''ROSSI'', str ''A'', str ''B'', str ''C'', str ''D'', str ''E''] =
      [str ''MARIO'', str ''ROSSI'', str ''A'', str ''B'', str ''C'', str ''D'', str ''E'']"
    by (simp add: str_simps)
  have i: "filter (\<lambda>x. x \<in> set [str ''MARIO'', str ''ROSSI'', str ''A'', str ''B'', str ''C'', str ''D'', str ''E''])
             [str ''MARIO'', str ''ROSSI''] = [str ''MARIO'', str ''ROSSI'']"
    by simp
  have d: "filter (\<lambda>x. x \<notin> set [str ''MARIO'', str ''ROSSI'', str ''A'', str ''B'', str ''C'', str ''D'', str ''E''])
             [str ''MARIO'', str ''ROSSI''] = []"
    by simp
  have t: "token_set_ratio rapidfuzz_ref (str ''MARIO ROSSI'') (str ''MARIO ROSSI A B C D E'') = 100"
    unfolding rapidfuzz_ref_def ref_token_set_ratio_def Let_def
    by (simp only: rapidfuzz.select_convs s1 s2 r1 r2 i d) simp
  from initial_bonus_outer_returns [of ucd_sample ?pt ?at 0] obtain b where
    b: "initial_bonus_outer ucd_sample ?pt ?at 0 = Inr b" "0 \<le> b" by blast
  then have "min 100 (100 + b) = 100" by simp
  with b show ?thesis
    unfolding calculate_token_set_score_optimized_def Let_def p a t by simp
qed

text \<open>
  Claim C6, as amended.  For a candidate name of more than six tokens, scored against a
  registry name of at least two tokens (both normalised names non-empty),
  \<open>parse_author_name\<close> returns the pair of two empty strings; this is not the list sentinel,
  so the score is the weighted sum of the structured branch, computed with an empty candidate
  family name and an empty candidate given name; and no exception is raised.
\<close>

theorem long_author_name_score:
  assumes "p_nome_completo_normalized prof_data = Some prof_clean" and "prof_clean \<noteq> []"
    and "a_display_name_normalized author_data = Some author_clean" and "author_clean \<noteq> []"
    and "p_nome_completo_tokens prof_data = Some prof_tokens" and "2 \<le> length prof_tokens"
    and "a_display_name_tokens author_data = Some author_tokens" and "6 < length author_tokens"
    and "parse_professor_name U prof_tokens
           (case p_nome_completo_original prof_data of None \<Rightarrow> prof_clean | Some n \<Rightarrow> n) =
         (prof_nome, prof_cognome)"
  shows "parse_author_name U author_tokens = Inr ([], CognomeStr []) \<and>
         (\<exists>nome_score.
            calculate_first_name_score_optimized U L prof_nome [] = Inr nome_score \<and>
            calculate_name_score_optimized U L prof_data author_data =
              Inr (combine_scores
                     (JaroWinkler_similarity L
                        (if prof_cognome \<noteq> [] then py_upper U prof_cognome else []) [] * 100)
                     nome_score))"
proof -
  from first_name_score_returns [of U L prof_nome "[]"] obtain n where
    n: "calculate_first_name_score_optimized U L prof_nome [] = Inr n" by blast
  have o: "(case p_nome_completo_original prof_data of
              None \<Rightarrow> (case p_nome_completo_normalized prof_data of None \<Rightarrow> [] | Some n \<Rightarrow> n)
            | Some n \<Rightarrow> n) =
           (case p_nome_completo_original prof_data of None \<Rightarrow> prof_clean | Some n \<Rightarrow> n)"
    by (simp add: assms(1) split: option.splits)
  have "calculate_name_score_optimized U L prof_data author_data =
          Inr (combine_scores
                 (JaroWinkler_similarity L
                    (if prof_cognome \<noteq> [] then py_upper U prof_cognome else []) [] * 100) n)"
    unfolding calculate_name_score_optimized_def Let_def o
    using assms(2,4,6,8) n
    by (simp add: assms(1,3,5,7,9) parse_author_name_long [OF assms(8)])
  with n parse_author_name_long [OF assms(8)] show ?thesis by blast
qed

theorem long_author_name_score_witness:
  "p_nome_completo_normalized prof_mario = Some (str ''Mario ROSSI'') \<and>
   str ''Mario ROSSI'' \<noteq> [] \<and>
   a_display_name_normalized author_long = Some (str ''Mario Rossi A B C D E'') \<and>
   str ''Mario Rossi A B C D E'' \<noteq> [] \<and>
   p_nome_completo_tokens prof_mario = Some [str ''Mario'', str ''ROSSI''] \<and>
   2 \<le> length [str ''Mario'', str ''ROSSI''] \<and>
   a_display_name_tokens author_long =
     Some [str ''Mario'', str ''Rossi'', str ''A'', str ''B'', str ''C'', str ''D'', str ''E''] \<and>
   6 < length [str ''Mario'', str ''Rossi'', str ''A'', str ''B'', str ''C'', str ''D'', str ''E''] \<and>
   parse_author_name ucd_sample
     [str ''Mario'', str ''Rossi'', str ''A'', str ''B'', str ''C'', str ''D'', str ''E''] =
     Inr ([], CognomeStr []) \<and>
   calculate_name_score_optimized ucd_sample rapidfuzz_ref prof_mario author_long = Inr 0"
proof -
  have h1: "p_nome_completo_normalized prof_mario = Some (str ''Mario ROSSI'')"
    and h3: "a_display_name_normalized author_long = Some (str ''Mario Rossi A B C D E'')"
    and h5: "p_nome_completo_tokens prof_mario = Some [str ''Mario'', str ''ROSSI'']"
    and h7: "a_display_name_tokens author_long =
      Some [str ''Mario'', str ''Rossi'', str ''A'', str ''B'', str ''C'', str ''D'', str ''E'']"
    by (simp_all add: prof_mario_def author_long_def)
  have h2: "str ''Mario ROSSI'' \<noteq> []" and h4: "str ''Mario Rossi A B C D E'' \<noteq> []"
    by (simp_all add: str_simps)
  have h6: "2 \<le> length [str ''Mario'', str ''ROSSI'']"
    and h8: "6 < length [str ''Mario'', str ''Rossi'', str ''A'', str ''B'', str ''C'', str ''D'', str ''E'']"
    by simp_all
  have h9: "parse_professor_name ucd_sample [str ''Mario'', str ''ROSSI'']
           (case p_nome_completo_original prof_mario of
              None \<Rightarrow> str ''Mario ROSSI'' | Some n \<Rightarrow> n) = (str ''Mario'', str ''ROSSI'')"
    by (simp add: prof_mario_def rossi_parsed)
  from long_author_name_score [OF h1 h2 h3 h4 h5 h6 h7 h8 h9, of rapidfuzz_ref]
    h1 h2 h3 h4 h5 h6 h7 h8 mario_long_score
  show ?thesis by simp
qed
text \<open>
  Claim C6 as stated fails: for the registry name \<open>Mario ROSSI\<close> and the seven-token candidate
  name \<open>Mario Rossi A B C D E\<close> the score (0) is not the token-set score (100).
\<close>

theorem long_author_name_not_token_set:
  "a_display_name_tokens author_long =
     Some [str ''Mario'', str ''Rossi'', str ''A'', str ''B'', str ''C'', str ''D'', str ''E''] \<and>
   p_nome_completo_tokens prof_mario = Some [str ''Mario'', str ''ROSSI''] \<and>
   calculate_name_score_optimized ucd_sample rapidfuzz_ref prof_mario author_long \<noteq>
     calculate_token_set_score_optimized ucd_sample rapidfuzz_ref
       [str ''Mario'', str ''ROSSI'']
       [str ''Mario'', str ''Rossi'', str ''A'', str ''B'', str ''C'', str ''D'', str ''E'']"
  by (simp add: mario_long_score mario_long_token_set) (simp add: prof_mario_def author_long_def)

section \<open>The registry parser\<close>

lemma py_isupper_nonempty: "py_isupper U token \<Longrightarrow> token \<noteq> []"
  by (auto simp: py_isupper_def)

lemma py_join_nonempty:
  "xs \<noteq> [] \<Longrightarrow> \<forall>x \<in> set xs. x \<noteq> [] \<Longrightarrow> py_join sep xs \<noteq> []"
  by (induction sep xs rule: py_join.induct) auto

lemma py_join_upper_tokens:
  "py_join [32] (filter (py_isupper U) tokens) = [] \<longleftrightarrow> \<not> list_ex (py_isupper U) tokens"
proof
  assume e: "py_join [32] (filter (py_isupper U) tokens) = []"
  have "filter (py_isupper U) tokens = []"
  proof (rule ccontr)
    assume n: "filter (py_isupper U) tokens \<noteq> []"
    have "\<forall>x \<in> set (filter (py_isupper U) tokens). x \<noteq> []"
      using py_isupper_nonempty by auto
    from py_join_nonempty [OF n this] e show False by simp
  qed
  then show "\<not> list_ex (py_isupper U) tokens"
    by (simp add: filter_empty_conv list_ex_iff)
next
  assume "\<not> list_ex (py_isupper U) tokens"
  then have "filter (py_isupper U) tokens = []"
    by (simp add: filter_empty_conv list_ex_iff)
  then show "py_join [32] (filter (py_isupper U) tokens) = []" by simp
qed

lemma d_angelo_tokens:
  "py_split ucd_sample maria_d_angelo = [str ''Maria'', d_angelo]"
  by (simp add: maria_d_angelo_def d_angelo_def ucd_sample_simps py_simps)

lemma d_angelo_isupper:
  "py_isupper ucd_sample d_angelo" "\<not> py_isupper ucd_sample (str ''Maria'')"
  "\<not> uppercase_alphabetic ucd_sample d_angelo"
  "\<not> uppercase_alphabetic ucd_sample (str ''Maria'')"
  by (simp_all add: d_angelo_def uppercase_alphabetic_def ucd_sample_simps py_simps)

lemma d_angelo_nonempty: "maria_d_angelo \<noteq> []"
  by (simp add: maria_d_angelo_def str_simps)

lemma d_angelo_parsed:
  "parse_professor_name ucd_sample prof_tokens maria_d_angelo = (str ''Maria'', d_angelo)"
  unfolding parse_professor_name_def Let_def
  by (simp add: d_angelo_nonempty d_angelo_tokens d_angelo_isupper)
     (simp add: d_angelo_def str_simps)

lemma d_angelo_spec:
  "spec_parse_registry_name ucd_sample [str ''Maria'', d_angelo] = (d_angelo, str ''Maria'')"
  unfolding spec_parse_registry_name_def
  by (simp add: d_angelo_isupper)

text \<open>
  Claim C5, as amended.  For a registry name of at least two tokens (the tokens of the
  original name, or the normalised tokens when the original name is empty),
  \<open>parse_professor_name\<close> takes a token for part of the family name exactly when
  \<open>token.isupper()\<close> holds: the token has an upper-case character and no lower-case or
  title-case one, whatever else it contains.  The other tokens make the given name; both
  parts keep the order of the tokens.  When no token qualifies, the first token is the family
  name and the rest the given name.
\<close>

theorem parse_professor_name_by_isupper:
  assumes "original_tokens = (if original_name \<noteq> [] then py_split U original_name else prof_tokens)"
    and "2 \<le> length original_tokens"
  shows "parse_professor_name U prof_tokens original_name =
           (if list_ex (py_isupper U) original_tokens
            then (py_join [32] (filter (\<lambda>token. \<not> py_isupper U token) original_tokens),
                  py_join [32] (filter (py_isupper U) original_tokens))
            else (py_join [32] (drop 1 original_tokens), original_tokens ! 0))"
  using assms(2) py_join_upper_tokens [of U original_tokens]
  unfolding parse_professor_name_def Let_def assms(1) [symmetric]
  by auto

theorem parse_professor_name_by_isupper_witness:
  "[str ''Maria'', d_angelo] =
     (if maria_d_angelo \<noteq> [] then py_split ucd_sample maria_d_angelo else []) \<and>
   2 \<le> length [str ''Maria'', d_angelo] \<and>
   list_ex (py_isupper ucd_sample) [str ''Maria'', d_angelo] \<and>
   parse_professor_name ucd_sample [] maria_d_angelo = (str ''Maria'', d_angelo)"
proof -
  have a: "[str ''Maria'', d_angelo] =
     (if maria_d_angelo \<noteq> [] then py_split ucd_sample maria_d_angelo else [])"
    by (simp add: d_angelo_nonempty d_angelo_tokens)
  have b: "2 \<le> length [str ''Maria'', d_angelo]" by simp
  have c: "list_ex (py_isupper ucd_sample) [str ''Maria'', d_angelo]"
    by (simp add: d_angelo_isupper)
  have "parse_professor_name ucd_sample [] maria_d_angelo =
          (if list_ex (py_isupper ucd_sample) [str ''Maria'', d_angelo]
           then (py_join [32] (filter (\<lambda>token. \<not> py_isupper ucd_sample token) [str ''Maria'', d_angelo]),
                 py_join [32] (filter (py_isupper ucd_sample) [str ''Maria'', d_angelo]))
           else (py_join [32] (drop 1 [str ''Maria'', d_angelo]), [str ''Maria'', d_angelo] ! 0))"
    by (rule parse_professor_name_by_isupper [OF a b])
  also have "\<dots> = (str ''Maria'', d_angelo)"
    by (simp add: d_angelo_isupper)
  finally have d: "parse_professor_name ucd_sample [] maria_d_angelo = (str ''Maria'', d_angelo)" .
  from a b c d show ?thesis by blast
qed


text \<open>
  Claim C5 as stated fails: in \<open>Maria D'ANGELO\<close> the token \<open>D'ANGELO\<close> is not composed
  entirely of upper-case alphabetic characters, yet it becomes the family name; by the
  specification's rule no token qualifies and \<open>Maria\<close> would be the family name.
\<close>

theorem parse_professor_name_not_alphabetic:
  "py_split ucd_sample maria_d_angelo = [str ''Maria'', d_angelo] \<and>
   \<not> uppercase_alphabetic ucd_sample d_angelo \<and>
   parse_professor_name ucd_sample [] maria_d_angelo = (str ''Maria'', d_angelo) \<and>
   parse_professor_name ucd_sample [] maria_d_angelo \<noteq>
     spec_parse_registry_name ucd_sample (py_split ucd_sample maria_d_angelo)"
  by (simp add: d_angelo_tokens d_angelo_isupper d_angelo_parsed d_angelo_spec)
     (simp add: d_angelo_def str_simps)

section \<open>Normalising twice\<close>

lemma collapse_ws_idem:
  "collapse_ws sp False (collapse_ws sp b z) = collapse_ws sp b z \<and>
   (sp 32 \<longrightarrow> collapse_ws sp True (collapse_ws sp True z) = collapse_ws sp True z)"
proof (induction z arbitrary: b)
  case Nil
  then show ?case by simp
next
  case (Cons c cs)
  show ?case
  proof (cases "sp c")
    case True
    with Cons.IH [of True] Cons.IH [of False] show ?thesis by (cases b) auto
  next
    case False
    with Cons.IH [of False] show ?thesis by auto
  qed
qed

lemma collapse_ws_set: "set (collapse_ws sp b z) \<subseteq> insert 32 (set z)"
  by (induction z arbitrary: b) auto

lemma collapse_ws_hd:
  "z \<noteq> [] \<Longrightarrow> \<not> sp (hd z) \<Longrightarrow> collapse_ws sp b z \<noteq> [] \<and> hd (collapse_ws sp b z) = hd z"
  by (cases z) auto

lemma collapse_ws_last:
  "z \<noteq> [] \<Longrightarrow> \<not> sp (last z) \<Longrightarrow> collapse_ws sp b z \<noteq> [] \<and> last (collapse_ws sp b z) = last z"
proof (induction z arbitrary: b)
  case Nil
  then show ?case by simp
next
  case (Cons c cs)
  show ?case
  proof (cases "cs = []")
    case True
    with Cons.prems show ?thesis by simp
  next
    case False
    with Cons.prems have "\<not> sp (last cs)" by simp
    from Cons.IH [OF False this] False show ?thesis by auto
  qed
qed

lemma dropWhile_id: "s = [] \<or> \<not> P (hd s) \<Longrightarrow> dropWhile P s = s"
  by (cases s) auto

lemma py_strip_id:
  assumes "s = [] \<or> (\<not> cp_isspace U (hd s) \<and> \<not> cp_isspace U (last s))"
  shows "py_strip U s = s"
proof (cases "s = []")
  case True
  then show ?thesis by (simp add: py_strip_def)
next
  case False
  with assms have h: "\<not> cp_isspace U (hd s)" and l: "\<not> cp_isspace U (last s)" by auto
  from h False have a: "dropWhile (cp_isspace U) s = s" by (simp add: dropWhile_id)
  from l False have "\<not> cp_isspace U (hd (rev s))" by (simp add: hd_rev)
  then have "dropWhile (cp_isspace U) (rev s) = rev s" by (simp add: dropWhile_id)
  with a show ?thesis by (simp add: py_strip_def)
qed

lemma py_strip_ends:
  "py_strip U x = [] \<or>
   (\<not> cp_isspace U (hd (py_strip U x)) \<and> \<not> cp_isspace U (last (py_strip U x)))"
proof (cases "py_strip U x = []")
  case True
  then show ?thesis by simp
next
  case False
  define y where "y = dropWhile (cp_isspace U) x"
  define w where "w = dropWhile (cp_isspace U) (rev y)"
  have z: "py_strip U x = rev w" by (simp add: py_strip_def y_def w_def)
  with False have wne: "w \<noteq> []" by simp
  then have "\<not> cp_isspace U (hd w)" unfolding w_def by (rule hd_dropWhile)
  with wne have l: "\<not> cp_isspace U (last (rev w))" by (simp add: last_rev)
  have "rev y = takeWhile (cp_isspace U) (rev y) @ w"
    unfolding w_def by simp
  then have "y = rev w @ rev (takeWhile (cp_isspace U) (rev y))"
    by (metis rev_append rev_rev_ident)
  with wne have hy: "hd y = hd (rev w)" and yne: "y \<noteq> []"
    by (metis hd_append2 rev_is_Nil_conv, metis Nil_is_append_conv rev_is_Nil_conv)
  from yne have "\<not> cp_isspace U (hd y)" unfolding y_def by (rule hd_dropWhile)
  with hy l z show ?thesis by simp
qed

lemma sub_fixed:
  "sub_dashes (sub_commas (sub_apostrophes (sub_dashes c))) = sub_commas (sub_apostrophes (sub_dashes c))"
  "sub_apostrophes (sub_commas (sub_apostrophes (sub_dashes c))) = sub_commas (sub_apostrophes (sub_dashes c))"
  "sub_commas (sub_commas (sub_apostrophes (sub_dashes c))) = sub_commas (sub_apostrophes (sub_dashes c))"
  by (simp_all add: sub_dashes_def sub_apostrophes_def sub_commas_def)

lemma sub_space: "sub_dashes 32 = 32" "sub_apostrophes 32 = 32" "sub_commas 32 = 32"
  by (simp_all add: sub_dashes_def sub_apostrophes_def sub_commas_def)

lemma sub_not_Mn:
  assumes "\<not> is_Mn U 45" "\<not> is_Mn U 39" "\<not> is_Mn U 32" "\<not> is_Mn U c"
  shows "\<not> is_Mn U (sub_commas (sub_apostrophes (sub_dashes c)))"
  using assms by (simp add: sub_dashes_def sub_apostrophes_def sub_commas_def)

lemma normalize_name_settled:
  assumes "\<not> is_Mn U 45" "\<not> is_Mn U 39" "\<not> is_Mn U 32"
  shows "\<forall>c \<in> set (normalize_name U s). settled U c"
proof (cases "s = []")
  case True
  then show ?thesis by (simp add: normalize_name_def)
next
  case False
  define y where "y = filter (\<lambda>char. \<not> is_Mn U char) (nfd U s)"
  define x where "x = map sub_commas (map sub_apostrophes (map sub_dashes y))"
  have r: "normalize_name U s = collapse_ws (cp_isspace U) False (py_strip U x)"
    using False by (simp add: normalize_name_def Let_def x_def y_def del: map_map)
  have sx: "\<forall>c \<in> set x. settled U c"
  proof
    fix c assume "c \<in> set x"
    then obtain d where d: "d \<in> set y" "c = sub_commas (sub_apostrophes (sub_dashes d))"
      by (auto simp: x_def)
    then have "\<not> is_Mn U d" by (simp add: y_def)
    from sub_not_Mn [OF assms this] d(2) sub_fixed [of d] show "settled U c"
      by (simp add: settled_def)
  qed
  have s32: "settled U 32" using assms(3) by (simp add: settled_def sub_space)
  show ?thesis
  proof
    fix c assume "c \<in> set (normalize_name U s)"
    with r collapse_ws_set [of "cp_isspace U" False "py_strip U x"]
    have "c = 32 \<or> c \<in> set (py_strip U x)" by auto
    with set_py_strip [of U x] sx s32 show "settled U c" by auto
  qed
qed

lemma normalize_name_shape:
  "py_strip U (normalize_name U s) = normalize_name U s \<and>
   collapse_ws (cp_isspace U) False (normalize_name U s) = normalize_name U s"
proof (cases "s = []")
  case True
  then show ?thesis by (simp add: normalize_name_def py_strip_def)
next
  case False
  define x where "x = map sub_commas (map sub_apostrophes (map sub_dashes
                    (filter (\<lambda>char. \<not> is_Mn U char) (nfd U s))))"
  define z where "z = py_strip U x"
  have r: "normalize_name U s = collapse_ws (cp_isspace U) False z"
    using False by (simp add: normalize_name_def Let_def x_def z_def del: map_map)
  have c: "collapse_ws (cp_isspace U) False (normalize_name U s) = normalize_name U s"
    unfolding r using collapse_ws_idem [of "cp_isspace U" False z] by simp
  have "py_strip U (collapse_ws (cp_isspace U) False z) = collapse_ws (cp_isspace U) False z"
  proof (cases "z = []")
    case True
    then show ?thesis by (simp add: py_strip_def)
  next
    case zne: False
    with py_strip_ends [of U x] have e: "\<not> cp_isspace U (hd z)" "\<not> cp_isspace U (last z)"
      by (simp_all add: z_def)
    from collapse_ws_hd [of z "cp_isspace U" False] collapse_ws_last [of z "cp_isspace U" False] zne e
    show ?thesis by (intro py_strip_id) simp
  qed
  with c r show ?thesis by simp
qed

lemma normalize_name_fixed:
  assumes "nfd U (normalize_name U s) = normalize_name U s"
    and "\<not> is_Mn U 45" and "\<not> is_Mn U 39" and "\<not> is_Mn U 32"
  shows "normalize_name U (normalize_name U s) = normalize_name U s"
proof (cases "normalize_name U s = []")
  case True
  then show ?thesis by (simp add: normalize_name_def)
next
  case False
  define r where "r = normalize_name U s"
  from normalize_name_settled [OF assms(2-4), of s] have st: "\<forall>c \<in> set r. settled U c"
    by (simp add: r_def)
  then have f: "filter (\<lambda>char. \<not> is_Mn U char) r = r"
    by (simp add: settled_def filter_id_conv)
  from st have m: "map sub_dashes r = r" "map sub_apostrophes r = r" "map sub_commas r = r"
    by (simp_all add: settled_def map_idI)
  from normalize_name_shape [of U s] have sh: "py_strip U r = r"
    "collapse_ws (cp_isspace U) False r = r" by (simp_all add: r_def)
  from assms(1) have n: "nfd U r = r" by (simp add: r_def)
  from False have "r \<noteq> []" by (simp add: r_def)
  then have "normalize_name U r = r"
    by (simp add: normalize_name_def Let_def n f m sh del: map_map)
  then show ?thesis by (simp add: r_def)
qed

text \<open>
  Every character of \<open>normalize_name(s)\<close> is a space, or comes by the three substitutions
  from a character of the decomposition of \<open>s\<close> that is not a non-spacing mark.
\<close>

lemma sub_cases:
  "sub_commas (sub_apostrophes (sub_dashes d)) = d \<or>
   sub_commas (sub_apostrophes (sub_dashes d)) = 45 \<or>
   sub_commas (sub_apostrophes (sub_dashes d)) = 39 \<or>
   sub_commas (sub_apostrophes (sub_dashes d)) = 32"
  by (simp add: sub_dashes_def sub_apostrophes_def sub_commas_def)

lemma normalize_name_chars:
  assumes "c \<in> set (normalize_name U s)"
  shows "c = 32 \<or>
         (\<exists>d \<in> set (nfd U s). \<not> is_Mn U d \<and> c = sub_commas (sub_apostrophes (sub_dashes d)))"
proof (cases "s = []")
  case True
  with assms show ?thesis by (simp add: normalize_name_def)
next
  case False
  define y where "y = filter (\<lambda>char. \<not> is_Mn U char) (nfd U s)"
  define x where "x = map sub_commas (map sub_apostrophes (map sub_dashes y))"
  have r: "normalize_name U s = collapse_ws (cp_isspace U) False (py_strip U x)"
    using False by (simp add: normalize_name_def Let_def x_def y_def del: map_map)
  from assms r collapse_ws_set [of "cp_isspace U" False "py_strip U x"]
  have "c = 32 \<or> c \<in> set (py_strip U x)" by auto
  with set_py_strip [of U x] have "c = 32 \<or> c \<in> set x" by auto
  then show ?thesis by (auto simp: x_def y_def)
qed

lemma normalize_name_plain:
  assumes "P 45" "P 39" "P 32"
    and "list_all (\<lambda>c. P c \<or> is_Mn U c) (nfd U s)"
  shows "list_all P (normalize_name U s)"
  unfolding list_all_iff
proof
  fix c assume "c \<in> set (normalize_name U s)"
  from normalize_name_chars [OF this] show "P c"
  proof
    assume "c = 32" with assms(3) show ?thesis by simp
  next
    assume "\<exists>d \<in> set (nfd U s). \<not> is_Mn U d \<and> c = sub_commas (sub_apostrophes (sub_dashes d))"
    then obtain d where d: "d \<in> set (nfd U s)" "\<not> is_Mn U d"
      "c = sub_commas (sub_apostrophes (sub_dashes d))" by blast
    from d(1,2) assms(4) have "P d" by (auto simp: list_all_iff)
    with sub_cases [of d] d(3) assms(1-3) show ?thesis by auto
  qed
qed

text \<open>
  The sample tables: a string of characters of combining class 0 is in canonical order, so the
  decomposition leaves every ASCII string alone.
\<close>

lemma canonical_order_starters:
  "list_all (\<lambda>c. ccc c = 0) t \<Longrightarrow> canonical_order ccc t = t"
proof (induction t)
  case Nil
  then show ?case by simp
next
  case (Cons c cs)
  then have "canonical_order ccc cs = cs" by simp
  with Cons.prems show ?case by (cases cs) auto
qed

lemma nfd_leaves_sample: "nfd_leaves ucd_sample (\<lambda>c. c < 128)"
proof -
  have "list_all (\<lambda>c. sample_ccc c = 0) t" if "list_all (\<lambda>c. c < 128) t" for t
    using that by (auto simp: list_all_iff sample_ccc_def)
  then show ?thesis
    by (simp add: nfd_leaves_def ucd_sample_def canonical_order_starters)
qed

lemma normalize_name_idempotent_ascii_sample:
  assumes "list_all (\<lambda>c. c < 128) s"
  shows "normalize_name ucd_sample (normalize_name ucd_sample s) = normalize_name ucd_sample s"
proof -
  from assms nfd_leaves_sample have "nfd ucd_sample s = s" by (simp add: nfd_leaves_def)
  with assms have "list_all (\<lambda>c. c < 128 \<or> is_Mn ucd_sample c) (nfd ucd_sample s)"
    by (simp add: list_all_iff)
  then have "list_all (\<lambda>c. c < 128) (normalize_name ucd_sample s)"
    by (intro normalize_name_plain) simp_all
  with nfd_leaves_sample
  have "nfd ucd_sample (normalize_name ucd_sample s) = normalize_name ucd_sample s"
    by (simp add: nfd_leaves_def)
  then show ?thesis by (rule normalize_name_fixed) (simp_all add: ucd_sample_def)
qed

lemma rossi_marked_normalized:
  "normalize_name ucd_sample (str ''  Ro'' @ [2305] @ str ''ssi,  Mario; '') = str ''Rossi Mario''"
  by (simp add: normalize_simps ucd_sample_simps py_simps)

lemma rossi_marked_nfd:
  "nfd ucd_sample (str ''  Ro'' @ [2305] @ str ''ssi,  Mario; '') =
     str ''  Ro'' @ [2305] @ str ''ssi,  Mario; ''"
  by (simp add: ucd_sample_simps py_simps)

lemma marks_normalized:
  "normalize_name ucd_sample [119149, 2305, 119141] = [119149, 119141]"
  "normalize_name ucd_sample [119149, 119141] = [119141, 119149]"
  by (simp_all add: normalize_simps ucd_sample_simps py_simps)

text \<open>
  Claim C8, as amended.  Let \<open>P\<close> be a class of characters that NFD leaves alone (every
  string over \<open>P\<close> is its own NFD) and that contains the hyphen, the apostrophe and the space,
  none of the three a non-spacing mark; the ASCII range is such a class.  Then
  \<open>normalize_name(normalize_name(s)) == normalize_name(s)\<close> for every string \<open>s\<close> over
  \<open>P\<close>, and for every string \<open>s\<close> whose canonical decomposition
  \<open>unicodedata.normalize('NFD', s)\<close> consists of characters of \<open>P\<close> and of non-spacing
  marks (category Mn): every ASCII name, and every name of ASCII characters and accented letters
  that decompose into an ASCII letter and non-spacing accents.
\<close>

theorem normalize_name_idempotent_on_plain:
  assumes "nfd_leaves U P"
    and "P 45" and "P 39" and "P 32"
    and "\<not> is_Mn U 45" and "\<not> is_Mn U 39" and "\<not> is_Mn U 32"
    and "list_all P s \<or> list_all (\<lambda>c. P c \<or> is_Mn U c) (nfd U s)"
  shows "normalize_name U (normalize_name U s) = normalize_name U s"
proof -
  have d: "list_all (\<lambda>c. P c \<or> is_Mn U c) (nfd U s)"
  proof (cases "list_all P s")
    case True
    with assms(1) have "nfd U s = s" by (simp add: nfd_leaves_def)
    with True show ?thesis by (simp add: list_all_iff)
  next
    case False
    with assms(8) show ?thesis by simp
  qed
  from normalize_name_plain [OF assms(2-4) d] have "list_all P (normalize_name U s)" .
  with assms(1) have "nfd U (normalize_name U s) = normalize_name U s"
    by (simp add: nfd_leaves_def)
  from normalize_name_fixed [OF this assms(5-7)] show ?thesis .
qed

theorem normalize_name_idempotent_on_plain_witness:
  "nfd_leaves ucd_sample (\<lambda>c. c < 128) \<and>
   list_all (\<lambda>c. c < 128 \<or> is_Mn ucd_sample c)
     (nfd ucd_sample (str ''  Ro'' @ [2305] @ str ''ssi,  Mario; '')) \<and>
   \<not> list_all (\<lambda>c. c < 128) (str ''  Ro'' @ [2305] @ str ''ssi,  Mario; '') \<and>
   normalize_name ucd_sample (str ''  Ro'' @ [2305] @ str ''ssi,  Mario; '') = str ''Rossi Mario'' \<and>
   normalize_name ucd_sample (str ''Rossi Mario'') = str ''Rossi Mario''"
proof -
  have a: "list_all (\<lambda>c. c < 128 \<or> is_Mn ucd_sample c)
     (nfd ucd_sample (str ''  Ro'' @ [2305] @ str ''ssi,  Mario; ''))"
    unfolding rossi_marked_nfd by (simp add: ucd_sample_def str_def)
  have n: "\<not> list_all (\<lambda>c. c < 128) (str ''  Ro'' @ [2305] @ str ''ssi,  Mario; '')"
    by (simp add: str_def)
  have b: "\<not> is_Mn ucd_sample 45" "\<not> is_Mn ucd_sample 39" "\<not> is_Mn ucd_sample 32"
    by (simp_all add: ucd_sample_def)
  from normalize_name_idempotent_on_plain
         [of ucd_sample "\<lambda>c. c < 128", OF nfd_leaves_sample _ _ _ b disjI2, OF _ _ _ a]
  have "normalize_name ucd_sample
          (normalize_name ucd_sample (str ''  Ro'' @ [2305] @ str ''ssi,  Mario; '')) =
        normalize_name ucd_sample (str ''  Ro'' @ [2305] @ str ''ssi,  Mario; '')" by simp
  with nfd_leaves_sample a n rossi_marked_normalized show ?thesis by simp
qed

text \<open>
  Claim C8 as stated fails: in U+1D16D U+0901 U+1D165 the non-spacing mark U+0901 (combining
  class 0) keeps two marks of category Mc apart, of combining classes 226 and 216.  The first
  pass removes U+0901; the second pass puts the two remaining marks in canonical order.
\<close>

theorem normalize_name_not_idempotent:
  "normalize_name ucd_sample (normalize_name ucd_sample [119149, 2305, 119141]) \<noteq>
     normalize_name ucd_sample [119149, 2305, 119141]"
  by (simp add: marks_normalized)

section \<open>Global sort against greedy best pick\<close>

lemma contested_strings:
  "str ''AB'' \<noteq> []" "str ''AC'' \<noteq> []" "str ''XY'' \<noteq> []"
  "py_strip ucd_sample (str ''AB'') = str ''AB''"
  "py_strip ucd_sample (str ''AC'') = str ''AC''"
  "py_strip ucd_sample (str ''XY'') = str ''XY''"
  "py_upper ucd_sample (str ''AB'') = str ''AB''"
  "py_upper ucd_sample (str ''AC'') = str ''AC''"
  "py_upper ucd_sample (str ''XY'') = str ''XY''"
  "py_split ucd_sample (str ''AB'') = [str ''AB'']"
  "py_split ucd_sample (str ''AC'') = [str ''AC'']"
  "py_split ucd_sample (str ''XY'') = [str ''XY'']"
  by (simp_all add: ucd_sample_simps py_simps)

lemma contested_lengths:
  "length (str ''AB'') = 2" "length (str ''AC'') = 2" "length (str ''XY'') = 2"
  by (simp_all add: str_simps)

lemma contested_jw:
  "jaro_winkler_similarity (str ''AB'') (str ''AC'') = 2 / 3"
  "jaro_winkler_similarity (str ''AB'') (str ''XY'') = 0"
  "jaro_winkler_similarity (str ''AC'') (str ''AC'') = 1"
  "jaro_winkler_similarity (str ''AC'') (str ''XY'') = 0"
  by (simp_all add: jaro_winkler_similarity_def jaro_similarity_def flagged_def Let_def str_simps)

lemma contested_tsr:
  "ref_token_set_ratio ucd_sample (str ''AB'') (str ''AC'') = 50"
  "ref_token_set_ratio ucd_sample (str ''AB'') (str ''XY'') = 0"
  "ref_token_set_ratio ucd_sample (str ''AC'') (str ''AC'') = 100"
  "ref_token_set_ratio ucd_sample (str ''AC'') (str ''XY'') = 0"
  unfolding ref_token_set_ratio_def Let_def contested_strings
  by (simp_all add: str_simps norm_distance_def indel_distance_def)

lemma contested_scores:
  "calculate_institution_score ucd_sample rapidfuzz_ref (str ''AB'') (str ''AC'') = 200 / 3"
  "calculate_institution_score ucd_sample rapidfuzz_ref (str ''AB'') (str ''XY'') = 0"
  "calculate_institution_score ucd_sample rapidfuzz_ref (str ''AC'') (str ''AC'') = 100"
  "calculate_institution_score ucd_sample rapidfuzz_ref (str ''AC'') (str ''XY'') = 0"
  unfolding calculate_institution_score_def Let_def contested_strings rapidfuzz_ref_def
  by (simp_all add: contested_strings(1-3) contested_lengths contested_jw contested_tsr)

lemma contested_greedy:
  "greedy_institution_matching ucd_sample rapidfuzz_ref [miur_ab, miur_ac] [oa_ac, oa_xy] 60 =
     Inr [\<lparr> im_score = 200 / 3, nome_operativo_miur = str ''AB'', nome_esteso_miur = str ''AB'',
            display_name_oa = Some (str ''AC''), id_openalex = 1,
            im_match_type = Some ''display_name'' \<rparr>]"
  unfolding greedy_institution_matching_def
  by (simp add: miur_ab_def miur_ac_def oa_ac_def oa_xy_def contested_scores Let_def)

lemma contested_sorted:
  "sort_matches contested_matches =
     [(100, prof_ac, 1, ''display_name''), (200 / 3, prof_ab, 1, ''display_name''),
      (0, prof_ab, 2, ''display_name''), (0, prof_ac, 2, ''display_name'')]"
  by (simp add: sort_matches_def contested_matches_def contested_scores cand_score_def)

lemma contested_resolved:
  "resolve_matches (sort_matches contested_matches) (map_of [(1, author_ac), (2, author_xy)]) 60 =
     Inr [make_match_result 100 prof_ac 1 author_ac]"
  unfolding contested_sorted
  by (simp add: resolve_matches_def Let_def)

text \<open>
  Claim C9.  The two resolution strategies are not equivalent.  Two left entries \<open>AB\<close> and
  \<open>AC\<close> compete for the right entry \<open>AC\<close> (scores 66.67 and 100; the other right entry
  \<open>XY\<close> scores 0), with the acceptance threshold 60.  \<open>resolve_matches\<close>, on the candidates
  sorted by falling score, gives the right entry to \<open>AC\<close>; \<open>greedy_institution_matching\<close>,
  which serves the left entries in their order, gives it to \<open>AB\<close>.  The assignments differ.
\<close>

theorem resolution_strategies_differ:
  "resolve_matches (sort_matches contested_matches) (map_of [(1, author_ac), (2, author_xy)]) 60 =
     Inr [make_match_result 100 prof_ac 1 author_ac] \<and>
   greedy_institution_matching ucd_sample rapidfuzz_ref [miur_ab, miur_ac] [oa_ac, oa_xy] 60 =
     Inr [\<lparr> im_score = 200 / 3, nome_operativo_miur = str ''AB'', nome_esteso_miur = str ''AB'',
            display_name_oa = Some (str ''AC''), id_openalex = 1,
            im_match_type = Some ''display_name'' \<rparr>] \<and>
   map (\<lambda>m. (m_nome_completo_rubrica m, m_author_id m)) [make_match_result 100 prof_ac 1 author_ac] =
     [(Some (str ''AC''), 1)] \<and>
   map (\<lambda>m. (Some (nome_operativo_miur m), id_openalex m))
     [\<lparr> im_score = 200 / 3, nome_operativo_miur = str ''AB'', nome_esteso_miur = str ''AB'',
        display_name_oa = Some (str ''AC''), id_openalex = (1 :: nat),
        im_match_type = Some ''display_name'' \<rparr>] =
     [(Some (str ''AB''), 1)] \<and>
   [(Some (str ''AC''), 1 :: nat)] \<noteq> [(Some (str ''AB''), 1)]"
  using contested_resolved contested_greedy
  by (simp add: make_match_result_def prof_ac_def str_simps)

section \<open>The oldest registry parser and the specification's rule\<close>

text \<open>
  With tables in which every alphabetic character is cased, the oldest parser classifies
  the tokens as the specification words it; the later parsers dropped the \<open>isalpha\<close> test.
\<close>

lemma uppercase_alphabetic_iff:
  assumes "letters_cased U"
  shows "uppercase_alphabetic U token \<longleftrightarrow> py_isupper U token \<and> py_isalpha U token"
proof -
  from assms have c: "\<And>c. cp_isalpha U c \<Longrightarrow>
      cp_isupper U c \<longleftrightarrow> \<not> cp_islower U c \<and> \<not> cp_istitle U c"
    by (simp add: letters_cased_def)
  show ?thesis
  proof
    assume u: "uppercase_alphabetic U token"
    then obtain d where "d \<in> set token" by (cases token) (auto simp: uppercase_alphabetic_def)
    with u c show "py_isupper U token \<and> py_isalpha U token"
      by (auto simp: uppercase_alphabetic_def py_isupper_def py_isalpha_def list_all_iff list_ex_iff)
  next
    assume "py_isupper U token \<and> py_isalpha U token"
    with c show "uppercase_alphabetic U token"
      by (auto simp: uppercase_alphabetic_def py_isupper_def py_isalpha_def list_all_iff)
  qed
qed

lemma py_join_filter_nonempty_tokens:
  assumes "\<And>x. P x \<Longrightarrow> x \<noteq> []"
  shows "py_join [32] (filter P tokens) = [] \<longleftrightarrow> \<not> list_ex P tokens"
proof
  assume e: "py_join [32] (filter P tokens) = []"
  have "filter P tokens = []"
  proof (rule ccontr)
    assume n: "filter P tokens \<noteq> []"
    have "\<forall>x \<in> set (filter P tokens). x \<noteq> []" using assms by auto
    from py_join_nonempty [OF n this] e show False by simp
  qed
  then show "\<not> list_ex P tokens" by (simp add: filter_empty_conv list_ex_iff)
next
  assume "\<not> list_ex P tokens"
  then have "filter P tokens = []" by (simp add: filter_empty_conv list_ex_iff)
  then show "py_join [32] (filter P tokens) = []" by simp
qed

lemma parse_professor_name_old_meets_spec:
  assumes "letters_cased U" and "2 \<le> length prof_tokens"
  shows "fst (parse_professor_name_old U prof_tokens) = spec_parse_registry_name U prof_tokens"
proof -
  have eq: "(\<lambda>token. py_isupper U token \<and> py_isalpha U token) = uppercase_alphabetic U"
    using uppercase_alphabetic_iff [OF assms(1)] by auto
  have neq: "(\<lambda>token. \<not> (py_isupper U token \<and> py_isalpha U token)) =
             (\<lambda>token. \<not> uppercase_alphabetic U token)"
    using uppercase_alphabetic_iff [OF assms(1)] by auto
  have ne: "\<And>x. uppercase_alphabetic U x \<Longrightarrow> x \<noteq> []"
    by (simp add: uppercase_alphabetic_def)
  from py_join_filter_nonempty_tokens [of "uppercase_alphabetic U" prof_tokens, OF ne] assms(2)
  show ?thesis
    unfolding parse_professor_name_old_def spec_parse_registry_name_def Let_def eq neq
    by auto
qed

lemma letters_cased_sample: "letters_cased ucd_sample"
  by (auto simp: letters_cased_def ucd_sample_def ascii_letter_def)

end
